theory Spec2Isabelle
  imports Main "HOL-Library.Char_ord" "HOL-Library.Sublist"
begin

section \<open>Shared types (package types)\<close>

text \<open>
  Go strings are byte sequences; they are modelled as \<open>string\<close> (a list of 8-bit
  characters). Field names follow the Go structs; where two structs share a field name
  the later one carries a short prefix.
\<close>

record EncoreDatabase =
  Name :: string
  MigrationsPath :: string
  SourceFile :: string

record DatabaseMapping =
  EncoreName :: string
  PGDBName :: string
  Host :: string
  Port :: string
  Username :: string
  Password :: string
  SSLMode :: string

record MigrationResult =
  VersionBefore :: nat
  VersionAfter :: nat

section \<open>Config Resolver (package config)\<close>

record ClientCert =
  Cert :: string
  Key :: string

record TLSConfig =
  Disabled :: bool
  CA :: string
  ClientCert :: "ClientCert option"
  DisableTLSHostnameVerification :: bool
  DisableCAValidation :: bool

record StringOrEnvRef =
  Value :: string
  EnvVar :: string
  IsEnv :: bool

record DatabaseConfig =
  cfgName :: StringOrEnvRef
  cfgUsername :: StringOrEnvRef
  cfgPassword :: StringOrEnvRef
  MinConnections :: "int option"
  MaxConnections :: "int option"

record SQLServer =
  srvHost :: string
  TLSConfig :: "TLSConfig option"
  Databases :: "string \<rightharpoonup> DatabaseConfig"

record InfraConfig =
  SQLServers :: "SQLServer list"

text \<open>
  Errors of the package as values. \<open>EnvNotSet v\<close> is
  \<^verbatim>\<open>environment variable v is not set\<close>; the three \<open>Resolving...\<close> constructors are the
  \<^verbatim>\<open>fmt.Errorf("resolving ... for %s: %w", encoreName, err)\<close> wrappers of GetMapping;
  \<open>ConfigError field (DatabaseNotFound n)\<close> is \<^verbatim>\<open>types.ConfigError\<close> with the message
  \<^verbatim>\<open>database %q not found in InfraConfig\<close> for the name \<open>n\<close>.
\<close>

datatype message = DatabaseNotFound string

datatype error =
    EnvNotSet string
  | ResolvingUsername string error
  | ResolvingPassword string error
  | ResolvingDatabaseName string error
  | ConfigError string message

text \<open>The process environment; \<^verbatim>\<open>os.Getenv\<close> returns the empty string for an unset variable.\<close>

type_synonym environ = "string \<rightharpoonup> string"

definition Getenv :: "environ \<Rightarrow> string \<Rightarrow> string" where
  "Getenv env k = (case env k of None \<Rightarrow> [] | Some v \<Rightarrow> v)"

definition Resolve :: "environ \<Rightarrow> StringOrEnvRef \<Rightarrow> error + string" where
  "Resolve env s =
     (if \<not> IsEnv s then Inr (Value s)
      else let v = Getenv env (EnvVar s)
           in if v = [] then Inl (EnvNotSet (EnvVar s)) else Inr v)"

text \<open>\<^verbatim>\<open>strings.LastIndex\<close> for a one-byte separator; Go's \<open>-1\<close> is \<open>None\<close>.\<close>

fun LastIndex :: "string \<Rightarrow> char \<Rightarrow> nat option" where
  "LastIndex [] c = None"
| "LastIndex (x # xs) c =
     (case LastIndex xs c of
        Some i \<Rightarrow> Some (Suc i)
      | None \<Rightarrow> if x = c then Some 0 else None)"

definition parseHostPort :: "string \<Rightarrow> string \<times> string" where
  "parseHostPort hostStr =
     (case LastIndex hostStr (CHR '':'') of
        None \<Rightarrow> (hostStr, ''5432'')
      | Some idx \<Rightarrow> (take idx hostStr, drop (idx + 1) hostStr))"

text \<open>
  The body of GetMapping's loop for the server that holds the logical name: host and
  port, the three credentials, the SSL mode.
\<close>

definition resolveMapping ::
  "environ \<Rightarrow> SQLServer \<Rightarrow> DatabaseConfig \<Rightarrow> string \<Rightarrow> error + DatabaseMapping" where
  "resolveMapping env server dbConfig encoreName =
     (let (host, port) = parseHostPort (srvHost server) in
      case Resolve env (cfgUsername dbConfig) of
        Inl err \<Rightarrow> Inl (ResolvingUsername encoreName err)
      | Inr username \<Rightarrow>
      (case Resolve env (cfgPassword dbConfig) of
        Inl err \<Rightarrow> Inl (ResolvingPassword encoreName err)
      | Inr password \<Rightarrow>
      (case (case Resolve env (cfgName dbConfig) of
               Inl err \<Rightarrow>
                 if Value (cfgName dbConfig) = [] \<and> \<not> IsEnv (cfgName dbConfig)
                 then Inr encoreName
                 else Inl (ResolvingDatabaseName encoreName err)
             | Inr n \<Rightarrow> Inr n) of
        Inl err \<Rightarrow> Inl err
      | Inr pgDBName0 \<Rightarrow>
          let pgDBName = (if pgDBName0 = [] then encoreName else pgDBName0);
              sslMode = (case TLSConfig server of
                           None \<Rightarrow> ''disable''
                         | Some tls \<Rightarrow>
                             if \<not> Disabled tls \<and> ClientCert tls \<noteq> None
                             then ''require'' else ''disable'')
          in Inr \<lparr>EncoreName = encoreName, PGDBName = pgDBName, Host = host,
                   Port = port, Username = username, Password = password,
                   SSLMode = sslMode\<rparr>)))"

fun GetMapping_servers :: "environ \<Rightarrow> SQLServer list \<Rightarrow> string \<Rightarrow> error + DatabaseMapping" where
  "GetMapping_servers env [] encoreName =
     Inl (ConfigError ''sql_servers.databases'' (DatabaseNotFound encoreName))"
| "GetMapping_servers env (server # rest) encoreName =
     (case Databases server encoreName of
        Some dbConfig \<Rightarrow> resolveMapping env server dbConfig encoreName
      | None \<Rightarrow> GetMapping_servers env rest encoreName)"

definition GetMapping :: "environ \<Rightarrow> InfraConfig \<Rightarrow> string \<Rightarrow> error + DatabaseMapping" where
  "GetMapping env c encoreName = GetMapping_servers env (SQLServers c) encoreName"

section \<open>Discovery Facade (package discovery)\<close>

fun FilterDatabases_loop :: "EncoreDatabase list \<Rightarrow> string \<Rightarrow> EncoreDatabase list" where
  "FilterDatabases_loop [] targetDB = []"
| "FilterDatabases_loop (db # rest) targetDB =
     (if Name db = targetDB then [db] else FilterDatabases_loop rest targetDB)"

definition FilterDatabases :: "EncoreDatabase list \<Rightarrow> string \<Rightarrow> EncoreDatabase list" where
  "FilterDatabases databases targetDB =
     (if targetDB = [] then databases else FilterDatabases_loop databases targetDB)"

text \<open>
  The loop of DeduplicateDatabases with its two locals: \<open>seen\<close>, a \<^verbatim>\<open>map[string]bool\<close>
  that only ever stores true and reads a missing key as false, so it is the set of its
  keys; and the \<open>result\<close> slice.
\<close>

fun DeduplicateDatabases_loop ::
  "EncoreDatabase list \<Rightarrow> string set \<Rightarrow> EncoreDatabase list \<Rightarrow> EncoreDatabase list" where
  "DeduplicateDatabases_loop [] seen result = result"
| "DeduplicateDatabases_loop (db # rest) seen result =
     (if Name db \<notin> seen
      then DeduplicateDatabases_loop rest (insert (Name db) seen) (result @ [db])
      else DeduplicateDatabases_loop rest seen result)"

definition DeduplicateDatabases :: "EncoreDatabase list \<Rightarrow> EncoreDatabase list" where
  "DeduplicateDatabases databases = DeduplicateDatabases_loop databases {} []"

text \<open>
  The specification's words for deduplication, \<^emph>\<open>a stable first-occurrence-wins filter
  keyed by name\<close>, written without the accumulator: an entry is kept when no earlier
  entry had its name.
\<close>

fun firstOccurrences :: "EncoreDatabase list \<Rightarrow> string set \<Rightarrow> EncoreDatabase list" where
  "firstOccurrences [] seen = []"
| "firstOccurrences (db # rest) seen =
     (if Name db \<in> seen then firstOccurrences rest seen
      else db # firstOccurrences rest (insert (Name db) seen))"

section \<open>Operating system and library calls\<close>

text \<open>
  What the program asks of the operating system and of libraries outside the repository
  is a parameter of the model: reading a file, testing that a path does not exist
  (\<^verbatim>\<open>os.Stat\<close> with \<^verbatim>\<open>os.IsNotExist\<close>), the JSON and YAML decoders, the Go parser and the
  \<^verbatim>\<open>path/filepath\<close> functions. Library errors are their messages.
\<close>

record ManifestDatabase =
  mName :: string
  Migrations :: string

record Manifest =
  Version :: string
  mDatabases :: "ManifestDatabase list"

datatype token = INT | FLOAT | IMAG | CHAR | STRING

text \<open>
  The part of \<^verbatim>\<open>go/ast\<close> the scanner looks at. \<open>Node\<close> stands for every other kind of
  syntax node, with its children in the order \<^verbatim>\<open>ast.Inspect\<close> visits them. The first
  argument of \<open>CompositeLit\<close> is its optional type (no element or one), the second its
  elements.
\<close>

datatype expr =
    Ident string
  | BasicLit token string
  | SelectorExpr expr string
  | CallExpr expr "expr list"
  | CompositeLit "expr list" "expr list"
  | KeyValueExpr expr expr
  | Node "expr list"

record ImportSpec =
  ImportName :: "string option"
  PathValue :: string

record File =
  Imports :: "ImportSpec list"
  Decls :: "expr list"

record Sys =
  ReadFile :: "string \<Rightarrow> string + string"
  NotExist :: "string \<Rightarrow> bool"
  JSONUnmarshal :: "string \<Rightarrow> string + Manifest"
  YAMLUnmarshal :: "string \<Rightarrow> string + Manifest"
  ParseFile :: "string \<Rightarrow> string + File"
  IsAbs :: "string \<Rightarrow> bool"
  Join :: "string \<Rightarrow> string \<Rightarrow> string"
  Dir :: "string \<Rightarrow> string"
  Clean :: "string \<Rightarrow> string"

section \<open>Manifest Loader (package config)\<close>

datatype manifest_error =
    ReadingManifest string
  | ParsingJSONManifest string
  | ParsingYAMLManifest string
  | ManifestContainsNoDatabases
  | EntryMissingName
  | MissingMigrationsPath string
  | MigrationsDirectoryDoesNotExist string string

fun LoadManifest_loop ::
  "Sys \<Rightarrow> string \<Rightarrow> string \<Rightarrow> ManifestDatabase list \<Rightarrow> EncoreDatabase list
     \<Rightarrow> manifest_error + EncoreDatabase list" where
  "LoadManifest_loop sys manifestPath rootDir [] databases = Inr databases"
| "LoadManifest_loop sys manifestPath rootDir (db # rest) databases =
     (if mName db = [] then Inl EntryMissingName
      else if Migrations db = [] then Inl (MissingMigrationsPath (mName db))
      else
        let migrationsPath =
              (if \<not> IsAbs sys (Migrations db) then Join sys rootDir (Migrations db)
               else Migrations db)
        in if NotExist sys migrationsPath
           then Inl (MigrationsDirectoryDoesNotExist (mName db) migrationsPath)
           else LoadManifest_loop sys manifestPath rootDir rest
                  (databases @ [\<lparr>Name = mName db, MigrationsPath = migrationsPath,
                                  SourceFile = manifestPath\<rparr>]))"

definition LoadManifest :: "Sys \<Rightarrow> string \<Rightarrow> string \<Rightarrow> manifest_error + EncoreDatabase list" where
  "LoadManifest sys manifestPath rootDir =
     (case ReadFile sys manifestPath of
        Inl err \<Rightarrow> Inl (ReadingManifest err)
      | Inr data \<Rightarrow>
      (case (if suffix ''.json'' manifestPath
             then (case JSONUnmarshal sys data of
                     Inl err \<Rightarrow> Inl (ParsingJSONManifest err) | Inr m \<Rightarrow> Inr m)
             else (case YAMLUnmarshal sys data of
                     Inl err \<Rightarrow> Inl (ParsingYAMLManifest err) | Inr m \<Rightarrow> Inr m)) of
        Inl err \<Rightarrow> Inl err
      | Inr manifest \<Rightarrow>
          if length (mDatabases manifest) = 0 then Inl ManifestContainsNoDatabases
          else LoadManifest_loop sys manifestPath rootDir (mDatabases manifest) []))"

text \<open>
  The path LoadManifest checks for an entry, and what it takes for the loop to pass an
  entry and go on to the next one: both names present and the migrations directory not
  reported missing.
\<close>

definition resolvedPath :: "Sys \<Rightarrow> string \<Rightarrow> ManifestDatabase \<Rightarrow> string" where
  "resolvedPath sys rootDir db =
     (if \<not> IsAbs sys (Migrations db) then Join sys rootDir (Migrations db) else Migrations db)"

definition entryAccepted :: "Sys \<Rightarrow> string \<Rightarrow> ManifestDatabase \<Rightarrow> bool" where
  "entryAccepted sys rootDir db \<longleftrightarrow>
     mName db \<noteq> [] \<and> Migrations db \<noteq> [] \<and> \<not> NotExist sys (resolvedPath sys rootDir db)"

section \<open>Source Scanner (package discovery)\<close>

definition encoreSQLDBImport :: string where
  "encoreSQLDBImport = ''encore.dev/storage/sqldb''"

datatype extract_error =
    ExpectedTwoArguments nat
  | ExpectedStringLiteralGotType
  | ExpectedStringLiteralGotKind token
  | ExpectedCompositeLiteral
  | MigrationsFieldNotFound
  | ExtractingDatabaseName extract_error
  | ExtractingMigrationsPath extract_error

text \<open>
  \<^verbatim>\<open>types.DiscoveryError\<close>: the file, then what went wrong (the message and, where the
  source sets one, the cause).
\<close>

datatype DiscoveryError =
    FailedToParse string string
  | FailedToExtract string extract_error
  | MigrationsDirectoryMissing string string

text \<open>\<^verbatim>\<open>strings.Trim(s, cutset)\<close> for a one-byte cutset, and \<^verbatim>\<open>strings.Split\<close> on one byte.\<close>

definition Trim :: "string \<Rightarrow> char \<Rightarrow> string" where
  "Trim s c = rev (dropWhile (\<lambda>x. x = c) (rev (dropWhile (\<lambda>x. x = c) s)))"

fun Split :: "string \<Rightarrow> char \<Rightarrow> string list" where
  "Split [] c = [[]]"
| "Split (x # xs) c =
     (if x = c then [] # Split xs c
      else (case Split xs c of [] \<Rightarrow> [[x]] | p # ps \<Rightarrow> (x # p) # ps))"

fun findImportAlias :: "ImportSpec list \<Rightarrow> string \<Rightarrow> string" where
  "findImportAlias [] importPath = []"
| "findImportAlias (imp # rest) importPath =
     (let path = Trim (PathValue imp) (CHR 0x22) in
      if path \<noteq> importPath then findImportAlias rest importPath
      else (case ImportName imp of
              Some name \<Rightarrow> if name = ''.'' \<or> name = ''_'' then [] else name
            | None \<Rightarrow> last (Split path (CHR ''/''))))"

fun isNewDatabaseCall :: "expr \<Rightarrow> string \<Rightarrow> bool" where
  "isNewDatabaseCall (SelectorExpr (Ident name) sel) sqldbAlias =
     (if sel \<noteq> ''NewDatabase'' then False else name = sqldbAlias)"
| "isNewDatabaseCall fn sqldbAlias = False"

fun extractStringLiteral :: "expr \<Rightarrow> extract_error + string" where
  "extractStringLiteral (BasicLit kind v) =
     (if kind \<noteq> STRING then Inl (ExpectedStringLiteralGotKind kind)
      else if length v \<ge> 2 \<and>
              ((hd v = CHR 0x22 \<and> last v = CHR 0x22) \<or> (hd v = CHR 0x60 \<and> last v = CHR 0x60))
      then Inr (butlast (tl v))
      else Inr v)"
| "extractStringLiteral e = Inl ExpectedStringLiteralGotType"

fun extractMigrationsPath_elts :: "expr list \<Rightarrow> extract_error + string" where
  "extractMigrationsPath_elts [] = Inl MigrationsFieldNotFound"
| "extractMigrationsPath_elts (KeyValueExpr (Ident key) v # rest) =
     (if key \<noteq> ''Migrations'' then extractMigrationsPath_elts rest
      else extractStringLiteral v)"
| "extractMigrationsPath_elts (elt # rest) = extractMigrationsPath_elts rest"

fun extractMigrationsPath :: "expr \<Rightarrow> extract_error + string" where
  "extractMigrationsPath (CompositeLit ty elts) = extractMigrationsPath_elts elts"
| "extractMigrationsPath e = Inl ExpectedCompositeLiteral"

text \<open>
  The scanner's state is its list of non-fatal errors; every function that may append to
  it takes the list and returns it.
\<close>

definition extractDatabaseConfig ::
  "Sys \<Rightarrow> DiscoveryError list \<Rightarrow> expr list \<Rightarrow> string
     \<Rightarrow> (extract_error + EncoreDatabase) \<times> DiscoveryError list" where
  "extractDatabaseConfig sys errors args filePath =
     (if length args < 2 then (Inl (ExpectedTwoArguments (length args)), errors)
      else case extractStringLiteral (args ! 0) of
        Inl err \<Rightarrow> (Inl (ExtractingDatabaseName err), errors)
      | Inr dbName \<Rightarrow>
      (case extractMigrationsPath (args ! 1) of
        Inl err \<Rightarrow> (Inl (ExtractingMigrationsPath err), errors)
      | Inr migrationsPath \<Rightarrow>
          let fileDir = Dir sys filePath;
              absPath = Clean sys (Join sys fileDir migrationsPath);
              errors' = (if NotExist sys absPath
                         then errors @ [MigrationsDirectoryMissing filePath absPath]
                         else errors)
          in (Inr \<lparr>Name = dbName, MigrationsPath = absPath, SourceFile = filePath\<rparr>,
              errors')))"

text \<open>
  The callback of \<^verbatim>\<open>ast.Inspect\<close> in parseFile, run on one node: a call that is
  \<open>alias.NewDatabase(...)\<close> adds a database or an error, every other node changes
  nothing. The callback always returns true, so the walk goes on into the children.
\<close>

definition visit ::
  "Sys \<Rightarrow> string \<Rightarrow> string \<Rightarrow> expr
     \<Rightarrow> EncoreDatabase list \<times> DiscoveryError list \<Rightarrow> EncoreDatabase list \<times> DiscoveryError list" where
  "visit sys sqldbAlias filePath n st =
     (case n of
        CallExpr fn args \<Rightarrow>
          if \<not> isNewDatabaseCall fn sqldbAlias then st
          else (case extractDatabaseConfig sys (snd st) args filePath of
                  (Inl err, errors) \<Rightarrow> (fst st, errors @ [FailedToExtract filePath err])
                | (Inr db, errors) \<Rightarrow> (fst st @ [db], errors))
      | _ \<Rightarrow> st)"

fun Inspect ::
  "(expr \<Rightarrow> 's \<Rightarrow> 's) \<Rightarrow> expr \<Rightarrow> 's \<Rightarrow> 's" where
  "Inspect f (Ident x) st = f (Ident x) st"
| "Inspect f (BasicLit k v) st = f (BasicLit k v) st"
| "Inspect f (SelectorExpr x sel) st =
     f (Ident sel) (Inspect f x (f (SelectorExpr x sel) st))"
| "Inspect f (CallExpr fn args) st =
     fold (Inspect f) args (Inspect f fn (f (CallExpr fn args) st))"
| "Inspect f (CompositeLit ty elts) st =
     fold (Inspect f) elts (fold (Inspect f) ty (f (CompositeLit ty elts) st))"
| "Inspect f (KeyValueExpr k v) st =
     Inspect f v (Inspect f k (f (KeyValueExpr k v) st))"
| "Inspect f (Node children) st = fold (Inspect f) children (f (Node children) st)"

definition parseFile ::
  "Sys \<Rightarrow> DiscoveryError list \<Rightarrow> string
     \<Rightarrow> (string + EncoreDatabase list) \<times> DiscoveryError list" where
  "parseFile sys errors filePath =
     (case ParseFile sys filePath of
        Inl err \<Rightarrow> (Inl err, errors)
      | Inr node \<Rightarrow>
          let sqldbAlias = findImportAlias (Imports node) encoreSQLDBImport in
          if sqldbAlias = [] then (Inr [], errors)
          else
            let (databases, errors') =
                  fold (Inspect (visit sys sqldbAlias filePath)) (Decls node) ([], errors)
            in (Inr databases, errors'))"

section \<open>Connection string (package migration)\<close>

text \<open>
  \<^verbatim>\<open>url.QueryEscape\<close> of Go's \<^verbatim>\<open>net/url\<close>, which BuildConnectionString calls on the user name
  and on the password: \<open>shouldEscape\<close> in the mode \<^verbatim>\<open>encodeQueryComponent\<close> keeps letters,
  digits and \<^verbatim>\<open>- _ . ~\<close>; a space becomes \<^verbatim>\<open>+\<close>; every other byte becomes \<^verbatim>\<open>%XX\<close> in
  upper-case hexadecimal.
\<close>

definition shouldEscape :: "char \<Rightarrow> bool" where
  "shouldEscape c =
     (if (CHR ''a'' \<le> c \<and> c \<le> CHR ''z'') \<or> (CHR ''A'' \<le> c \<and> c \<le> CHR ''Z'')
          \<or> (CHR ''0'' \<le> c \<and> c \<le> CHR ''9'') then False
      else if c = CHR ''-'' \<or> c = CHR ''_'' \<or> c = CHR ''.'' \<or> c = CHR ''~'' then False
      else True)"

definition upperhex :: string where
  "upperhex = ''0123456789ABCDEF''"

fun QueryEscape :: "string \<Rightarrow> string" where
  "QueryEscape [] = []"
| "QueryEscape (c # s) =
     (if shouldEscape c then
        (if c = CHR '' '' then CHR ''+'' # QueryEscape s
         else CHR ''%'' # upperhex ! (of_char c div 16) # upperhex ! (of_char c mod 16)
                # QueryEscape s)
      else c # QueryEscape s)"

datatype conn_error = HostRequired | DatabaseNameRequired | UsernameRequired

definition BuildConnectionString :: "DatabaseMapping \<Rightarrow> conn_error + string" where
  "BuildConnectionString mapping =
     (if Host mapping = [] then Inl HostRequired
      else if PGDBName mapping = [] then Inl DatabaseNameRequired
      else if Username mapping = [] then Inl UsernameRequired
      else
        let password = QueryEscape (Password mapping);
            port = (if Port mapping = [] then ''5432'' else Port mapping);
            sslMode = (if SSLMode mapping = [] then ''disable'' else SSLMode mapping)
        in Inr (''postgres://'' @ QueryEscape (Username mapping) @ '':'' @ password @ ''@''
                @ Host mapping @ '':'' @ port @ ''/'' @ PGDBName mapping
                @ ''?sslmode='' @ sslMode))"

text \<open>
  Reading a connection URL back, as \<^verbatim>\<open>url.Parse\<close> of \<^verbatim>\<open>net/url\<close> does for the migration
  engine and the PostgreSQL driver (both outside the repository), for a URL that starts
  with \<^verbatim>\<open>postgres:\<close>. The fragment is cut off at the first \<^verbatim>\<open>#\<close>; what is left must hold no
  control byte; the query is cut off at the first \<^verbatim>\<open>?\<close>; the authority runs from \<^verbatim>\<open>//\<close> to
  the next \<^verbatim>\<open>/\<close>; the host is what follows its last \<^verbatim>\<open>@\<close> and must pass \<open>parseHost\<close>; the
  user information is what precedes that \<^verbatim>\<open>@\<close>, must pass \<open>validUserinfo\<close>, is split at its
  first \<^verbatim>\<open>:\<close>, and each half is percent-decoded; the path and the fragment must be
  well-formed percent-encodings. In the user information a \<^verbatim>\<open>+\<close> stands for itself: only
  the decoding of a query component reads it as a space.

  \<open>parseUserPassword\<close> is \<open>Some (user, password)\<close> only where \<^verbatim>\<open>url.Parse\<close> succeeds with that
  user information (a user without a password reads as the empty password). It is \<open>None\<close>
  where \<^verbatim>\<open>url.Parse\<close> fails, where the URL carries no user information, and outside what
  is modelled: another scheme, or a host with a square bracket (an IP literal).
\<close>

definition unhex :: "char \<Rightarrow> nat option" where
  "unhex c =
     (if CHR ''0'' \<le> c \<and> c \<le> CHR ''9'' then Some (of_char c - of_char (CHR ''0''))
      else if CHR ''a'' \<le> c \<and> c \<le> CHR ''f'' then Some (of_char c - of_char (CHR ''a'') + 10)
      else if CHR ''A'' \<le> c \<and> c \<le> CHR ''F'' then Some (of_char c - of_char (CHR ''A'') + 10)
      else None)"

fun unescape :: "string \<Rightarrow> string option" where
  "unescape [] = Some []"
| "unescape (c # s) =
     (if c = CHR ''%'' then
        (case s of
           h1 # h2 # s' \<Rightarrow>
             (case (unhex h1, unhex h2, unescape s') of
                (Some a, Some b, Some r) \<Rightarrow> Some (char_of (a * 16 + b) # r)
              | _ \<Rightarrow> None)
         | _ \<Rightarrow> None)
      else map_option ((#) c) (unescape s))"

definition validUserinfo :: "string \<Rightarrow> bool" where
  "validUserinfo s =
     (\<forall>c \<in> set s.
        (CHR ''a'' \<le> c \<and> c \<le> CHR ''z'') \<or> (CHR ''A'' \<le> c \<and> c \<le> CHR ''Z'')
        \<or> (CHR ''0'' \<le> c \<and> c \<le> CHR ''9'') \<or> c \<in> set ''-._:~!$&'' \<or> c = CHR 0x27
        \<or> c \<in> set ''()*+,;=%@'')"

definition stringContainsCTLByte :: "string \<Rightarrow> bool" where
  "stringContainsCTLByte s = (\<exists>b \<in> set s. b < CHR 0x20 \<or> b = CHR 0x7F)"

definition validOptionalPort :: "string \<Rightarrow> bool" where
  "validOptionalPort port =
     (case port of
        [] \<Rightarrow> True
      | c # digits \<Rightarrow> c = CHR '':'' \<and> (\<forall>b \<in> set digits. CHR ''0'' \<le> b \<and> b \<le> CHR ''9''))"

text \<open>\<open>shouldEscape\<close> of \<^verbatim>\<open>net/url\<close> in the mode \<^verbatim>\<open>encodeHost\<close>.\<close>

definition shouldEscapeHost :: "char \<Rightarrow> bool" where
  "shouldEscapeHost c =
     (if (CHR ''a'' \<le> c \<and> c \<le> CHR ''z'') \<or> (CHR ''A'' \<le> c \<and> c \<le> CHR ''Z'')
          \<or> (CHR ''0'' \<le> c \<and> c \<le> CHR ''9'') then False
      else if c \<in> set ''!$&()*+,;=:[]<>'' \<or> c = CHR 0x27 \<or> c = CHR 0x22 then False
      else if c = CHR ''-'' \<or> c = CHR ''_'' \<or> c = CHR ''.'' \<or> c = CHR ''~'' then False
      else True)"

text \<open>
  The checks of \<^verbatim>\<open>unescape\<close> in the mode \<^verbatim>\<open>encodeHost\<close>: a percent escape must be
  well formed and stand for a byte from \<open>0x80\<close> on, or be \<^verbatim>\<open>%25\<close>; an ASCII byte that the
  host mode would escape is refused.
\<close>

fun validHostBytes :: "string \<Rightarrow> bool" where
  "validHostBytes [] = True"
| "validHostBytes (c # s) =
     (if c = CHR ''%'' then
        (case s of
           h1 # h2 # s' \<Rightarrow>
             (case (unhex h1, unhex h2) of
                (Some a, Some b) \<Rightarrow>
                  (a \<ge> 8 \<or> (h1 = CHR ''2'' \<and> h2 = CHR ''5'')) \<and> validHostBytes s'
              | _ \<Rightarrow> False)
         | _ \<Rightarrow> False)
      else if c < CHR 0x80 \<and> shouldEscapeHost c then False
      else validHostBytes s)"

definition parseHost :: "string \<Rightarrow> bool" where
  "parseHost host =
     (if CHR ''['' \<in> set host \<or> CHR '']'' \<in> set host then False
      else (case LastIndex host (CHR '':'') of
              Some i \<Rightarrow> validOptionalPort (drop i host)
            | None \<Rightarrow> True)
           \<and> validHostBytes host)"

definition parseUserPassword :: "string \<Rightarrow> (string \<times> string) option" where
  "parseUserPassword rawURL =
     (let u = takeWhile (\<lambda>c. c \<noteq> CHR ''#'') rawURL;
          frag = drop 1 (dropWhile (\<lambda>c. c \<noteq> CHR ''#'') rawURL) in
      if stringContainsCTLByte u then None
      else if \<not> prefix ''postgres:'' u then None
      else
        let rest = takeWhile (\<lambda>c. c \<noteq> CHR ''?'') (drop 9 u) in
        if \<not> prefix ''//'' rest then None
        else
          let authority = takeWhile (\<lambda>c. c \<noteq> CHR ''/'') (drop 2 rest);
              path = dropWhile (\<lambda>c. c \<noteq> CHR ''/'') (drop 2 rest) in
          case LastIndex authority (CHR ''@'') of
            None \<Rightarrow> None
          | Some i \<Rightarrow>
              let userinfo = take i authority in
              if \<not> parseHost (drop (i + 1) authority) then None
              else if \<not> validUserinfo userinfo then None
              else
                (case (unescape (takeWhile (\<lambda>c. c \<noteq> CHR '':'') userinfo),
                       unescape (drop 1 (dropWhile (\<lambda>c. c \<noteq> CHR '':'') userinfo))) of
                   (Some username, Some password) \<Rightarrow>
                     if unescape path = None \<or> unescape frag = None then None
                     else Some (username, password)
                 | _ \<Rightarrow> None))"

section \<open>Orchestrator (package migrate)\<close>

text \<open>
  The command-line flags the orchestrator reads, and the migration engine it drives.
  The engine talks to databases, so each call takes the state of the outside world and
  returns the new one with its result; its error is its message.
\<close>

record Flags =
  flag_database :: string
  flag_host :: string
  flag_user :: string
  flag_password :: string
  flag_steps :: int
  flag_all :: bool

record 'w Migrator =
  Up :: "string \<Rightarrow> string \<Rightarrow> int \<Rightarrow> 'w \<Rightarrow> (string + MigrationResult) \<times> 'w"
  Down :: "string \<Rightarrow> string \<Rightarrow> int \<Rightarrow> 'w \<Rightarrow> (string + MigrationResult) \<times> 'w"

text \<open>
  What loadConfigAndDiscover reads from outside: the configuration document as
  \<^verbatim>\<open>LoadInfraConfig\<close> decoded it, the absolute application path, and what the selected
  discoverer found.
\<close>

record Inputs =
  LoadInfraConfig :: "string + InfraConfig"
  AbsPath :: "string + string"
  Discover :: "string + EncoreDatabase list"

datatype run_error =
    LoadingInfraConfig string
  | ResolvingAppPath string
  | DiscoveringDatabases string
  | DatabaseNotFoundError string
  | NoDatabasesFound
  | BuildingConnectionString string conn_error
  | MigrationErrors string

text \<open>The lines the run writes: to standard error the first and third, the others to standard output.\<close>

datatype printed =
    WarningSkipping string error
  | Migrating string string
  | ErrorLine string
  | NoChanges nat
  | VersionChange nat nat

definition loadConfigAndDiscover :: "Inputs \<Rightarrow> run_error + (InfraConfig \<times> EncoreDatabase list)" where
  "loadConfigAndDiscover inp =
     (case LoadInfraConfig inp of
        Inl err \<Rightarrow> Inl (LoadingInfraConfig err)
      | Inr infraConfig \<Rightarrow>
      (case AbsPath inp of
        Inl err \<Rightarrow> Inl (ResolvingAppPath err)
      | Inr absPath \<Rightarrow>
      (case Discover inp of
        Inl err \<Rightarrow> Inl (DiscoveringDatabases err)
      | Inr databases \<Rightarrow> Inr (infraConfig, DeduplicateDatabases databases))))"

definition applyConnectionOverrides :: "Flags \<Rightarrow> DatabaseMapping \<Rightarrow> DatabaseMapping" where
  "applyConnectionOverrides cmd mapping =
     (let m1 = (if flag_host cmd \<noteq> [] then
                  (case LastIndex (flag_host cmd) (CHR '':'') of
                     Some idx \<Rightarrow> mapping\<lparr>Host := take idx (flag_host cmd),
                                           Port := drop (idx + 1) (flag_host cmd)\<rparr>
                   | None \<Rightarrow> mapping\<lparr>Host := flag_host cmd\<rparr>)
                else mapping);
          m2 = (if flag_user cmd \<noteq> [] then m1\<lparr>Username := flag_user cmd\<rparr> else m1);
          m3 = (if flag_password cmd \<noteq> [] then m2\<lparr>Password := flag_password cmd\<rparr> else m2)
      in m3)"

text \<open>\<^verbatim>\<open>strings.Join\<close>.\<close>

fun Join_strings :: "string list \<Rightarrow> string \<Rightarrow> string" where
  "Join_strings [] sep = []"
| "Join_strings [x] sep = x"
| "Join_strings (x # y # ys) sep = x @ sep @ Join_strings (y # ys) sep"

definition newline :: string where
  "newline = [CHR 0x0A]"

text \<open>
  The engine call inside the loop of runMigrations: \<open>Up\<close> with the \<open>steps\<close> flag when the
  direction is \<open>up\<close>, otherwise \<open>Down\<close>, with no step limit when the \<open>all\<close> flag is set.
\<close>

definition invokeMigrator ::
  "'w Migrator \<Rightarrow> string \<Rightarrow> Flags \<Rightarrow> string \<Rightarrow> string \<Rightarrow> 'w
     \<Rightarrow> (string + MigrationResult) \<times> 'w" where
  "invokeMigrator migrator direction cmd connStr migrationsPath w =
     (if direction = ''up''
      then Up migrator connStr migrationsPath (flag_steps cmd) w
      else Down migrator connStr migrationsPath (if flag_all cmd then 0 else flag_steps cmd) w)"

text \<open>
  The loop of runMigrations over the databases, with the locals it updates: the list
  \<open>errs\<close> of per-database error lines, what was written so far, and the world the engine
  acts on. It ends early, with an error, only where the source returns from inside the
  loop.
\<close>

fun runMigrations_loop ::
  "environ \<Rightarrow> Flags \<Rightarrow> 'w Migrator \<Rightarrow> string \<Rightarrow> InfraConfig \<Rightarrow> EncoreDatabase list
     \<Rightarrow> string list \<Rightarrow> printed list \<Rightarrow> 'w
     \<Rightarrow> (run_error + string list) \<times> printed list \<times> 'w" where
  "runMigrations_loop env cmd migrator direction infraConfig [] errs out w = (Inr errs, out, w)"
| "runMigrations_loop env cmd migrator direction infraConfig (db # rest) errs out w =
     (case GetMapping env infraConfig (Name db) of
        Inl err \<Rightarrow>
          runMigrations_loop env cmd migrator direction infraConfig rest errs
            (out @ [WarningSkipping (Name db) err]) w
      | Inr mapping0 \<Rightarrow>
          let mapping = applyConnectionOverrides cmd mapping0 in
          (case BuildConnectionString mapping of
             Inl err \<Rightarrow> (Inl (BuildingConnectionString (Name db) err), out, w)
           | Inr connStr \<Rightarrow>
               let out1 = out @ [Migrating (Name db) (PGDBName mapping)];
                   (res, w') =
                     invokeMigrator migrator direction cmd connStr (MigrationsPath db) w
               in (case res of
                     Inl err \<Rightarrow>
                       runMigrations_loop env cmd migrator direction infraConfig rest
                         (errs @ [Name db @ '': '' @ err]) (out1 @ [ErrorLine err]) w'
                   | Inr result \<Rightarrow>
                       runMigrations_loop env cmd migrator direction infraConfig rest errs
                         (out1 @ [if VersionBefore result = VersionAfter result
                                  then NoChanges (VersionAfter result)
                                  else VersionChange (VersionBefore result) (VersionAfter result)])
                         w')))"

text \<open>
  runMigrations returns its error (\<open>None\<close> is Go's \<open>nil\<close>: the process exits with status 0;
  any error makes \<open>main\<close> exit with status 1), what it wrote, and the world.
\<close>

definition runMigrations ::
  "environ \<Rightarrow> Inputs \<Rightarrow> Flags \<Rightarrow> 'w Migrator \<Rightarrow> string \<Rightarrow> 'w
     \<Rightarrow> run_error option \<times> printed list \<times> 'w" where
  "runMigrations env inp cmd migrator direction w =
     (case loadConfigAndDiscover inp of
        Inl err \<Rightarrow> (Some err, [], w)
      | Inr (infraConfig, databases0) \<Rightarrow>
          let targetDB = flag_database cmd;
              databases = (if targetDB \<noteq> [] then FilterDatabases databases0 targetDB
                           else databases0)
          in if targetDB \<noteq> [] \<and> length databases = 0
             then (Some (DatabaseNotFoundError targetDB), [], w)
             else if length databases = 0 then (Some NoDatabasesFound, [], w)
             else
               (case runMigrations_loop env cmd migrator direction infraConfig databases [] [] w of
                  (Inl err, out, w') \<Rightarrow> (Some err, out, w')
                | (Inr errs, out, w') \<Rightarrow>
                    if length errs > 0
                    then (Some (MigrationErrors
                                  (''migration errors:'' @ newline @ ''  ''
                                   @ Join_strings errs (newline @ ''  ''))), out, w')
                    else (None, out, w')))"

text \<open>
  The amended reading of the partial-failure policy, written without the loop's
  accumulators: the error lines of a run are those of the databases whose migration step
  failed, in order; a database without a resolvable configuration contributes nothing.
  The world is threaded through the engine calls as the loop does.
\<close>

definition failureOf :: "string \<Rightarrow> string + MigrationResult \<Rightarrow> string list" where
  "failureOf name res = (case res of Inl err \<Rightarrow> [name @ '': '' @ err] | Inr result \<Rightarrow> [])"

definition reportLine :: "string + MigrationResult \<Rightarrow> printed" where
  "reportLine res =
     (case res of
        Inl err \<Rightarrow> ErrorLine err
      | Inr result \<Rightarrow>
          if VersionBefore result = VersionAfter result then NoChanges (VersionAfter result)
          else VersionChange (VersionBefore result) (VersionAfter result))"

fun migrationFailures ::
  "environ \<Rightarrow> Flags \<Rightarrow> 'w Migrator \<Rightarrow> string \<Rightarrow> InfraConfig \<Rightarrow> EncoreDatabase list \<Rightarrow> 'w
     \<Rightarrow> string list" where
  "migrationFailures env cmd migrator direction infraConfig [] w = []"
| "migrationFailures env cmd migrator direction infraConfig (db # rest) w =
     (case GetMapping env infraConfig (Name db) of
        Inl err \<Rightarrow> migrationFailures env cmd migrator direction infraConfig rest w
      | Inr mapping \<Rightarrow>
          (case BuildConnectionString (applyConnectionOverrides cmd mapping) of
             Inl err \<Rightarrow> []
           | Inr connStr \<Rightarrow>
               (case invokeMigrator migrator direction cmd connStr (MigrationsPath db) w of
                  (res, w') \<Rightarrow>
                    failureOf (Name db) res
                    @ migrationFailures env cmd migrator direction infraConfig rest w')))"

definition aggregate :: "string list \<Rightarrow> run_error option" where
  "aggregate errs =
     (if errs = [] then None
      else Some (MigrationErrors
                   (''migration errors:'' @ newline @ ''  '' @ Join_strings errs (newline @ ''  ''))))"

section \<open>Example inputs\<close>

definition literal :: "string \<Rightarrow> StringOrEnvRef" where
  "literal v = \<lparr>Value = v, EnvVar = [], IsEnv = False\<rparr>"

definition envRef :: "string \<Rightarrow> StringOrEnvRef" where
  "envRef var = \<lparr>Value = [], EnvVar = var, IsEnv = True\<rparr>"


definition dbA :: EncoreDatabase where
  "dbA = \<lparr>Name = ''a'', MigrationsPath = ''p1'', SourceFile = ''x.go''\<rparr>"

definition dbB :: EncoreDatabase where
  "dbB = \<lparr>Name = ''b'', MigrationsPath = ''p2'', SourceFile = ''x.go''\<rparr>"

definition dbA' :: EncoreDatabase where
  "dbA' = \<lparr>Name = ''a'', MigrationsPath = ''p3'', SourceFile = ''y.go''\<rparr>"

definition plainDatabase :: DatabaseConfig where
  "plainDatabase =
     \<lparr>cfgName = literal ''pg'', cfgUsername = literal ''u'', cfgPassword = literal ''pw'',
      MinConnections = None, MaxConnections = None\<rparr>"

definition mutualTLSServer :: SQLServer where
  "mutualTLSServer =
     \<lparr>srvHost = ''first:1'',
      TLSConfig = Some \<lparr>Disabled = False, CA = [],
                        ClientCert = Some \<lparr>Cert = ''c'', Key = ''k''\<rparr>,
                        DisableTLSHostnameVerification = False, DisableCAValidation = False\<rparr>,
      Databases = [''users'' \<mapsto> plainDatabase]\<rparr>"

text \<open>
  A TLS block with a client certificate that is disabled, and one that only pins a CA
  and switches the checks off.
\<close>

definition disabledTLSServer :: SQLServer where
  "disabledTLSServer =
     \<lparr>srvHost = ''third:3'',
      TLSConfig = Some \<lparr>Disabled = True, CA = ''ca'',
                        ClientCert = Some \<lparr>Cert = ''c'', Key = ''k''\<rparr>,
                        DisableTLSHostnameVerification = False, DisableCAValidation = False\<rparr>,
      Databases = [''users'' \<mapsto> plainDatabase]\<rparr>"

definition caOnlyServer :: SQLServer where
  "caOnlyServer =
     \<lparr>srvHost = ''fourth:4'',
      TLSConfig = Some \<lparr>Disabled = False, CA = ''ca'', ClientCert = None,
                        DisableTLSHostnameVerification = True, DisableCAValidation = True\<rparr>,
      Databases = [''users'' \<mapsto> plainDatabase]\<rparr>"

definition plainServer :: SQLServer where
  "plainServer =
     \<lparr>srvHost = ''second:2'', TLSConfig = None, Databases = [''users'' \<mapsto> plainDatabase]\<rparr>"

definition dbC :: EncoreDatabase where
  "dbC = \<lparr>Name = ''c'', MigrationsPath = ''p4'', SourceFile = ''z.go''\<rparr>"

definition acConfig :: InfraConfig where
  "acConfig =
     \<lparr>SQLServers =
        [\<lparr>srvHost = ''h1'', TLSConfig = None, Databases = [''a'' \<mapsto> plainDatabase]\<rparr>,
         \<lparr>srvHost = ''h2:6432'', TLSConfig = None, Databases = [''c'' \<mapsto> plainDatabase]\<rparr>]\<rparr>"

definition threeInputs :: Inputs where
  "threeInputs =
     \<lparr>LoadInfraConfig = Inr acConfig, AbsPath = Inr ''/app'', Discover = Inr [dbA, dbB, dbC]\<rparr>"

definition emptyInputs :: Inputs where
  "emptyInputs = \<lparr>LoadInfraConfig = Inr acConfig, AbsPath = Inr ''/app'', Discover = Inr []\<rparr>"

definition noFlags :: Flags where
  "noFlags =
     \<lparr>flag_database = [], flag_host = [], flag_user = [], flag_password = [],
      flag_steps = 0, flag_all = False\<rparr>"

text \<open>An engine that always succeeds, taking every database from version 1 to version 2.\<close>

definition okMigrator :: "unit Migrator" where
  "okMigrator =
     \<lparr>Up = (\<lambda>connStr path steps w. (Inr \<lparr>VersionBefore = 1, VersionAfter = 2\<rparr>, w)),
      Down = (\<lambda>connStr path steps w. (Inr \<lparr>VersionBefore = 2, VersionAfter = 1\<rparr>, w))\<rparr>"

text \<open>An engine that fails on the migrations of the third database and succeeds elsewhere.\<close>

definition failingMigrator :: "unit Migrator" where
  "failingMigrator =
     \<lparr>Up = (\<lambda>connStr path steps w.
              (if path = ''p4'' then Inl ''boom'' else Inr \<lparr>VersionBefore = 1, VersionAfter = 2\<rparr>, w)),
      Down = (\<lambda>connStr path steps w. (Inr \<lparr>VersionBefore = 2, VersionAfter = 1\<rparr>, w))\<rparr>"

definition spacePasswordMapping :: DatabaseMapping where
  "spacePasswordMapping =
     \<lparr>EncoreName = ''orders'', PGDBName = ''d'', Host = ''h'', Port = ''5432'',
      Username = ''u'', Password = ''p q'', SSLMode = ''disable''\<rparr>"

definition exampleSys :: "Manifest \<Rightarrow> Sys" where
  "exampleSys m =
     \<lparr>ReadFile = (\<lambda>p. Inr []), NotExist = (\<lambda>p. False),
      JSONUnmarshal = (\<lambda>d. Inr m), YAMLUnmarshal = (\<lambda>d. Inr m),
      ParseFile = (\<lambda>p. Inl []), IsAbs = (\<lambda>p. True), Join = (\<lambda>a b. a @ ''/'' @ b),
      Dir = (\<lambda>p. p), Clean = (\<lambda>p. p)\<rparr>"

definition badManifest :: Manifest where
  "badManifest = \<lparr>Version = ''1'', mDatabases =
     [\<lparr>mName = ''a'', Migrations = ''/m/a''\<rparr>, \<lparr>mName = ''b'', Migrations = []\<rparr>,
      \<lparr>mName = [], Migrations = ''/m/c''\<rparr>]\<rparr>"

text \<open>
  A source file with the call \<^verbatim>\<open>alias.NewDatabase("orders", Config{Migrations: "./m"})\<close>
  under two aliases, importing the storage module under a given name.
\<close>

definition quoted :: "string \<Rightarrow> string" where
  "quoted s = CHR 0x22 # s @ [CHR 0x22]"

definition newDatabaseCall :: "string \<Rightarrow> expr" where
  "newDatabaseCall alias =
     CallExpr (SelectorExpr (Ident alias) ''NewDatabase'')
       [BasicLit STRING (quoted ''orders''),
        CompositeLit [Ident ''Config'']
          [KeyValueExpr (Ident ''Migrations'') (BasicLit STRING (quoted ''./m''))]]"

definition sourceFile :: "string option \<Rightarrow> File" where
  "sourceFile name =
     \<lparr>Imports = [\<lparr>ImportName = None, PathValue = quoted ''fmt''\<rparr>,
                 \<lparr>ImportName = name, PathValue = quoted ''encore.dev/storage/sqldb''\<rparr>],
      Decls = [Node [Ident ''db'', newDatabaseCall ''db2'', newDatabaseCall ''sqldb'']]\<rparr>"

definition scanSys :: "File \<Rightarrow> Sys" where
  "scanSys node = (exampleSys \<lparr>Version = [], mDatabases = []\<rparr>)\<lparr>ParseFile := (\<lambda>p. Inr node)\<rparr>"

section \<open>Properties of the Config Resolver\<close>

lemma Resolve_Inl_iff:
  "Resolve env s = Inl e \<longleftrightarrow> IsEnv s \<and> Getenv env (EnvVar s) = [] \<and> e = EnvNotSet (EnvVar s)"
  by (auto simp: Resolve_def Let_def)

lemma resolveMapping_SSLMode:
  assumes "resolveMapping env s cfg n = Inr m"
  shows "SSLMode m =
           (case TLSConfig s of
              None \<Rightarrow> ''disable''
            | Some tls \<Rightarrow>
                if \<not> Disabled tls \<and> ClientCert tls \<noteq> None then ''require'' else ''disable'')"
  using assms unfolding resolveMapping_def Let_def
  by (simp split: prod.splits sum.splits if_splits) auto

lemma resolveMapping_not_ConfigError:
  "resolveMapping env s cfg n \<noteq> Inl (ConfigError f msg)"
  unfolding resolveMapping_def Let_def
  by (simp split: prod.splits sum.splits if_splits add: Resolve_def)


lemma GetMapping_servers_find:
  "GetMapping_servers env servers n =
     (case find (\<lambda>s. Databases s n \<noteq> None) servers of
        None \<Rightarrow> Inl (ConfigError ''sql_servers.databases'' (DatabaseNotFound n))
      | Some s \<Rightarrow> resolveMapping env s (the (Databases s n)) n)"
  by (induction servers) (auto split: option.splits)

lemma GetMapping_servers_append:
  "\<forall>p \<in> set pre. Databases p n = None \<Longrightarrow>
     GetMapping_servers env (pre @ rest) n = GetMapping_servers env rest n"
  by (induction pre) auto

lemma GetMapping_servers_absent:
  "\<forall>s \<in> set servers. Databases s n = None \<Longrightarrow>
     GetMapping_servers env servers n
       = Inl (ConfigError ''sql_servers.databases'' (DatabaseNotFound n))"
  by (induction servers) auto

lemma GetMapping_servers_NotFound_iff:
  "(\<exists>f msg. GetMapping_servers env servers n = Inl (ConfigError f msg))
     \<longleftrightarrow> (\<forall>s \<in> set servers. Databases s n = None)"
  by (induction servers) (auto simp: resolveMapping_not_ConfigError split: option.splits)





lemma GetMapping_mutualTLS:
  "GetMapping Map.empty \<lparr>SQLServers = [mutualTLSServer, plainServer]\<rparr> ''users''
     = Inr \<lparr>EncoreName = ''users'', PGDBName = ''pg'', Host = ''first'', Port = ''1'',
             Username = ''u'', Password = ''pw'', SSLMode = ''require''\<rparr>"
  by (simp add: GetMapping_def resolveMapping_def parseHostPort_def Resolve_def
        mutualTLSServer_def plainDatabase_def literal_def)

lemma resolveMapping_produces:
  assumes "Resolve env (cfgUsername cfg) = Inr u" "Resolve env (cfgPassword cfg) = Inr pw"
    and "Resolve env (cfgName cfg) = Inr d"
  shows "\<exists>m. resolveMapping env s cfg n = Inr m"
  using assms unfolding resolveMapping_def Let_def
  by (simp split: prod.splits)

text \<open>
  C1. When the first server entry that holds the logical name has credentials and a
  physical name that resolve, GetMapping produces a descriptor, and its SSL mode is
  \<open>require\<close> if that server has a TLS block that is not disabled and declares a client
  certificate, and \<open>disable\<close> in every other case: no TLS block, a disabled one, or one
  without a client certificate. No other field of the TLS block takes part. Conversely,
  every descriptor GetMapping produces comes from the first server entry that holds the
  name and has its SSL mode decided in this way.
\<close>

theorem GetMapping_SSLMode:
  "(SQLServers c = pre @ s # post \<and> (\<forall>p \<in> set pre. Databases p n = None)
      \<and> Databases s n = Some cfg
      \<and> Resolve env (cfgUsername cfg) = Inr u \<and> Resolve env (cfgPassword cfg) = Inr pw
      \<and> Resolve env (cfgName cfg) = Inr d
      \<longrightarrow> (\<exists>m'. GetMapping env c n = Inr m'
             \<and> SSLMode m' =
                 (if \<exists>tls. TLSConfig s = Some tls \<and> \<not> Disabled tls \<and> ClientCert tls \<noteq> None
                  then ''require'' else ''disable'')))
   \<and> (GetMapping env c n = Inr m
      \<longrightarrow> (\<exists>s. find (\<lambda>s. Databases s n \<noteq> None) (SQLServers c) = Some s
             \<and> (SSLMode m = ''require''
                  \<longleftrightarrow> (\<exists>tls. TLSConfig s = Some tls \<and> \<not> Disabled tls \<and> ClientCert tls \<noteq> None))
             \<and> (SSLMode m \<noteq> ''require'' \<longrightarrow> SSLMode m = ''disable'')))"
proof (intro conjI impI)
  assume h: "SQLServers c = pre @ s # post \<and> (\<forall>p \<in> set pre. Databases p n = None)
      \<and> Databases s n = Some cfg
      \<and> Resolve env (cfgUsername cfg) = Inr u \<and> Resolve env (cfgPassword cfg) = Inr pw
      \<and> Resolve env (cfgName cfg) = Inr d"
  then have g: "GetMapping env c n = resolveMapping env s cfg n"
    by (simp add: GetMapping_def GetMapping_servers_append)
  from h resolveMapping_produces [of env cfg u pw d s n]
  obtain m' where r: "resolveMapping env s cfg n = Inr m'" by blast
  from resolveMapping_SSLMode [OF r]
  have "SSLMode m' =
          (if \<exists>tls. TLSConfig s = Some tls \<and> \<not> Disabled tls \<and> ClientCert tls \<noteq> None
           then ''require'' else ''disable'')"
    by (cases "TLSConfig s") auto
  with g r show "\<exists>m'. GetMapping env c n = Inr m'
             \<and> SSLMode m' =
                 (if \<exists>tls. TLSConfig s = Some tls \<and> \<not> Disabled tls \<and> ClientCert tls \<noteq> None
                  then ''require'' else ''disable'')"
    by simp
next
  assume ok: "GetMapping env c n = Inr m"
  then obtain s where f: "find (\<lambda>s. Databases s n \<noteq> None) (SQLServers c) = Some s"
    and r: "resolveMapping env s (the (Databases s n)) n = Inr m"
    by (auto simp: GetMapping_def GetMapping_servers_find split: option.splits)
  from resolveMapping_SSLMode [OF r]
  have "(SSLMode m = ''require''
            \<longleftrightarrow> (\<exists>tls. TLSConfig s = Some tls \<and> \<not> Disabled tls \<and> ClientCert tls \<noteq> None))
       \<and> (SSLMode m \<noteq> ''require'' \<longrightarrow> SSLMode m = ''disable'')"
    by (cases "TLSConfig s") auto
  with f show "\<exists>s. find (\<lambda>s. Databases s n \<noteq> None) (SQLServers c) = Some s
             \<and> (SSLMode m = ''require''
                  \<longleftrightarrow> (\<exists>tls. TLSConfig s = Some tls \<and> \<not> Disabled tls \<and> ClientCert tls \<noteq> None))
             \<and> (SSLMode m \<noteq> ''require'' \<longrightarrow> SSLMode m = ''disable'')"
    by blast
qed

theorem GetMapping_SSLMode_witness:
  "(\<exists>m. GetMapping Map.empty \<lparr>SQLServers = [mutualTLSServer, plainServer]\<rparr> ''users'' = Inr m
        \<and> SSLMode m = ''require'')
   \<and> (\<exists>m. GetMapping Map.empty \<lparr>SQLServers = [disabledTLSServer, mutualTLSServer]\<rparr> ''users'' = Inr m
        \<and> SSLMode m = ''disable'')
   \<and> (\<exists>m. GetMapping Map.empty \<lparr>SQLServers = [caOnlyServer, mutualTLSServer]\<rparr> ''users'' = Inr m
        \<and> SSLMode m = ''disable'')
   \<and> (\<exists>m. GetMapping Map.empty \<lparr>SQLServers = [plainServer, mutualTLSServer]\<rparr> ''users'' = Inr m
        \<and> SSLMode m = ''disable'')
   \<and> (\<exists>s. find (\<lambda>s. Databases s ''users'' \<noteq> None) [mutualTLSServer, plainServer] = Some s
        \<and> (\<exists>tls. TLSConfig s = Some tls \<and> \<not> Disabled tls \<and> ClientCert tls \<noteq> None))"
proof -
  have gen: "\<exists>m. GetMapping Map.empty \<lparr>SQLServers = [srv, other]\<rparr> ''users'' = Inr m
        \<and> SSLMode m =
             (if \<exists>tls. TLSConfig srv = Some tls \<and> \<not> Disabled tls \<and> ClientCert tls \<noteq> None
              then ''require'' else ''disable'')"
    if "Databases srv ''users'' = Some plainDatabase" for srv other
  proof -
    have "SQLServers \<lparr>SQLServers = [srv, other]\<rparr> = [] @ srv # [other]
            \<and> (\<forall>p \<in> set []. Databases p ''users'' = None)
            \<and> Databases srv ''users'' = Some plainDatabase
            \<and> Resolve Map.empty (cfgUsername plainDatabase) = Inr ''u''
            \<and> Resolve Map.empty (cfgPassword plainDatabase) = Inr ''pw''
            \<and> Resolve Map.empty (cfgName plainDatabase) = Inr ''pg''"
      using that by (simp add: Resolve_def plainDatabase_def literal_def)
    with GetMapping_SSLMode [where c = "\<lparr>SQLServers = [srv, other]\<rparr>" and pre = "[]" and s = srv
           and post = "[other]" and n = "''users''" and cfg = plainDatabase and env = Map.empty
           and u = "''u''" and pw = "''pw''" and d = "''pg''"]
    show ?thesis by blast
  qed
  have 1: "\<exists>m. GetMapping Map.empty \<lparr>SQLServers = [mutualTLSServer, plainServer]\<rparr> ''users'' = Inr m
        \<and> SSLMode m = ''require''"
    using gen [of mutualTLSServer plainServer] by (simp add: mutualTLSServer_def)
  have 2: "\<exists>m. GetMapping Map.empty \<lparr>SQLServers = [disabledTLSServer, mutualTLSServer]\<rparr> ''users'' = Inr m
        \<and> SSLMode m = ''disable''"
    using gen [of disabledTLSServer mutualTLSServer] by (simp add: disabledTLSServer_def)
  have 3: "\<exists>m. GetMapping Map.empty \<lparr>SQLServers = [caOnlyServer, mutualTLSServer]\<rparr> ''users'' = Inr m
        \<and> SSLMode m = ''disable''"
    using gen [of caOnlyServer mutualTLSServer] by (simp add: caOnlyServer_def)
  have 4: "\<exists>m. GetMapping Map.empty \<lparr>SQLServers = [plainServer, mutualTLSServer]\<rparr> ''users'' = Inr m
        \<and> SSLMode m = ''disable''"
    using gen [of plainServer mutualTLSServer] by (simp add: plainServer_def)
  have 5: "\<exists>s. find (\<lambda>s. Databases s ''users'' \<noteq> None) [mutualTLSServer, plainServer] = Some s
        \<and> (\<exists>tls. TLSConfig s = Some tls \<and> \<not> Disabled tls \<and> ClientCert tls \<noteq> None)"
    using GetMapping_SSLMode [where c = "\<lparr>SQLServers = [mutualTLSServer, plainServer]\<rparr>"
            and n = "''users''" and env = Map.empty
            and m = "\<lparr>EncoreName = ''users'', PGDBName = ''pg'', Host = ''first'', Port = ''1'',
                       Username = ''u'', Password = ''pw'', SSLMode = ''require''\<rparr>"]
          GetMapping_mutualTLS
    by simp
  from 1 2 3 4 5 show ?thesis by blast
qed



text \<open>
  C5. GetMapping answers from the first server entry, in declaration order, whose
  databases hold the logical name, whatever entries follow it; and it returns the
  not-found error, which carries the logical name, exactly when no server entry holds
  the name.
\<close>

theorem GetMapping_first_match:
  "(SQLServers c = pre @ s # post \<and> (\<forall>p \<in> set pre. Databases p n = None)
      \<and> Databases s n = Some cfg
      \<longrightarrow> GetMapping env c n = resolveMapping env s cfg n)
   \<and> ((\<exists>f msg. GetMapping env c n = Inl (ConfigError f msg))
        \<longleftrightarrow> (\<forall>s \<in> set (SQLServers c). Databases s n = None))
   \<and> ((\<forall>s \<in> set (SQLServers c). Databases s n = None)
        \<longrightarrow> GetMapping env c n
              = Inl (ConfigError ''sql_servers.databases'' (DatabaseNotFound n)))"
proof (intro conjI impI)
  assume "SQLServers c = pre @ s # post \<and> (\<forall>p \<in> set pre. Databases p n = None)
      \<and> Databases s n = Some cfg"
  then show "GetMapping env c n = resolveMapping env s cfg n"
    by (simp add: GetMapping_def GetMapping_servers_append)
next
  show "(\<exists>f msg. GetMapping env c n = Inl (ConfigError f msg))
        \<longleftrightarrow> (\<forall>s \<in> set (SQLServers c). Databases s n = None)"
    unfolding GetMapping_def by (rule GetMapping_servers_NotFound_iff)
next
  assume "\<forall>s \<in> set (SQLServers c). Databases s n = None"
  then show "GetMapping env c n
              = Inl (ConfigError ''sql_servers.databases'' (DatabaseNotFound n))"
    unfolding GetMapping_def by (rule GetMapping_servers_absent)
qed

theorem GetMapping_first_match_witness:
  "GetMapping Map.empty \<lparr>SQLServers = [mutualTLSServer, plainServer]\<rparr> ''users''
     = resolveMapping Map.empty mutualTLSServer plainDatabase ''users''
   \<and> GetMapping Map.empty \<lparr>SQLServers = [mutualTLSServer, plainServer]\<rparr> ''user''
     = Inl (ConfigError ''sql_servers.databases'' (DatabaseNotFound ''user''))"
proof -
  let ?c = "\<lparr>SQLServers = [mutualTLSServer, plainServer]\<rparr>"
  have a: "SQLServers ?c = [] @ mutualTLSServer # [plainServer]
             \<and> (\<forall>p \<in> set []. Databases p ''users'' = None)
             \<and> Databases mutualTLSServer ''users'' = Some plainDatabase"
    by (simp add: mutualTLSServer_def)
  have b: "\<forall>s \<in> set (SQLServers ?c). Databases s ''user'' = None"
    by (simp add: mutualTLSServer_def plainServer_def)
  from GetMapping_first_match [of ?c "[]" mutualTLSServer "[plainServer]" "''users''"
         plainDatabase Map.empty] a
  have 1: "GetMapping Map.empty ?c ''users''
             = resolveMapping Map.empty mutualTLSServer plainDatabase ''users''"
    by blast
  from GetMapping_first_match [of ?c "[]" mutualTLSServer "[plainServer]" "''user''"
         plainDatabase Map.empty] b
  have 2: "GetMapping Map.empty ?c ''user''
             = Inl (ConfigError ''sql_servers.databases'' (DatabaseNotFound ''user''))"
    by blast
  from 1 2 show ?thesis by simp
qed

text \<open>
  C10. Resolving an environment reference fails, with the error that names the
  variable, when the variable is unset and also when it is set to the empty string; so
  a value that such a reference resolves to is never empty.
\<close>

theorem Resolve_env_unset_or_empty_fails:
  "IsEnv s \<Longrightarrow>
     ((env (EnvVar s) = None \<or> env (EnvVar s) = Some []) \<longrightarrow>
        Resolve env s = Inl (EnvNotSet (EnvVar s)))
     \<and> (\<forall>v. Resolve env s = Inr v \<longrightarrow> v \<noteq> [] \<and> env (EnvVar s) = Some v)"
  by (auto simp: Resolve_def Getenv_def Let_def split: option.splits if_splits)

theorem Resolve_env_unset_or_empty_fails_witness:
  "Resolve [''PW'' \<mapsto> []] (envRef ''PW'') = Inl (EnvNotSet ''PW'')
   \<and> Resolve Map.empty (envRef ''PW'') = Inl (EnvNotSet ''PW'')"
proof -
  have env: "IsEnv (envRef ''PW'')" by (simp add: envRef_def)
  have set_empty: "[''PW'' \<mapsto> []] (EnvVar (envRef ''PW'')) = Some []"
    by (simp add: envRef_def)
  have unset: "(Map.empty :: environ) (EnvVar (envRef ''PW'')) = None" by simp
  from Resolve_env_unset_or_empty_fails [OF env, of "[''PW'' \<mapsto> []]"] set_empty
  have a: "Resolve [''PW'' \<mapsto> []] (envRef ''PW'') = Inl (EnvNotSet (EnvVar (envRef ''PW'')))"
    by blast
  from Resolve_env_unset_or_empty_fails [OF env, of Map.empty] unset
  have b: "Resolve Map.empty (envRef ''PW'') = Inl (EnvNotSet (EnvVar (envRef ''PW'')))"
    by blast
  from a b show ?thesis by (simp add: envRef_def)
qed

section \<open>Properties of the Discovery Facade\<close>

lemma FilterDatabases_loop_find:
  "FilterDatabases_loop dbs t =
     (case find (\<lambda>db. Name db = t) dbs of None \<Rightarrow> [] | Some db \<Rightarrow> [db])"
  by (induction dbs) auto

text \<open>
  C6, as stated, fails: with an empty target name FilterDatabases returns its whole
  input, here two entries.
\<close>

theorem FilterDatabases_empty_target_counterexample:
  "FilterDatabases [dbA, dbB] [] = [dbA, dbB] \<and> length (FilterDatabases [dbA, dbB] []) = 2"
  by (simp add: FilterDatabases_def)

text \<open>
  C6, amended. For a non-empty target name FilterDatabases returns the singleton list
  of the first entry whose name is the target, or the empty list when no entry has
  that name; for the empty target name it returns the input list unchanged.
\<close>

theorem FilterDatabases_singleton_or_empty:
  "(targetDB \<noteq> [] \<longrightarrow>
      FilterDatabases databases targetDB =
        (case find (\<lambda>db. Name db = targetDB) databases of None \<Rightarrow> [] | Some db \<Rightarrow> [db]))
   \<and> (targetDB = [] \<longrightarrow> FilterDatabases databases targetDB = databases)"
  by (simp add: FilterDatabases_def FilterDatabases_loop_find)

theorem FilterDatabases_singleton_or_empty_witness:
  "FilterDatabases [dbA, dbB, dbA'] ''a'' = [dbA] \<and> FilterDatabases [dbA, dbB, dbA'] ''c'' = []
   \<and> FilterDatabases [dbA, dbB, dbA'] [] = [dbA, dbB, dbA']"
  using FilterDatabases_singleton_or_empty [of "''a''" "[dbA, dbB, dbA']"]
        FilterDatabases_singleton_or_empty [of "''c''" "[dbA, dbB, dbA']"]
        FilterDatabases_singleton_or_empty [of "[]" "[dbA, dbB, dbA']"]
  by (simp add: dbA_def dbB_def dbA'_def)

lemma DeduplicateDatabases_loop_firstOccurrences:
  "DeduplicateDatabases_loop xs seen result = result @ firstOccurrences xs seen"
  by (induction xs arbitrary: seen result) simp_all

lemma firstOccurrences_names:
  "x \<in> set (firstOccurrences xs seen) \<Longrightarrow> Name x \<notin> seen \<and> x \<in> set xs"
  by (induction xs arbitrary: seen) (auto split: if_splits)

lemma firstOccurrences_distinct: "distinct (map Name (firstOccurrences xs seen))"
proof (induction xs arbitrary: seen)
  case Nil
  then show ?case by simp
next
  case (Cons a xs)
  have "Name a \<notin> Name ` set (firstOccurrences xs (insert (Name a) seen))"
    using firstOccurrences_names [of _ xs "insert (Name a) seen"] by force
  with Cons.IH show ?case by simp
qed

lemma firstOccurrences_subseq: "subseq (firstOccurrences xs seen) xs"
  by (induction xs arbitrary: seen) auto

lemma firstOccurrences_find:
  "x \<in> set (firstOccurrences xs seen) \<Longrightarrow> find (\<lambda>y. Name y = Name x) xs = Some x"
proof (induction xs arbitrary: seen)
  case Nil
  then show ?case by simp
next
  case (Cons a xs)
  show ?case
  proof (cases "Name a \<in> seen")
    case True
    with Cons.prems have in_rest: "x \<in> set (firstOccurrences xs seen)" by simp
    from firstOccurrences_names [OF in_rest] True have "Name a \<noteq> Name x" by auto
    with Cons.IH [OF in_rest] show ?thesis by simp
  next
    case False
    with Cons.prems
    have "x = a \<or> x \<in> set (firstOccurrences xs (insert (Name a) seen))" by simp
    then show ?thesis
    proof
      assume "x = a"
      then show ?thesis by simp
    next
      assume in_rest: "x \<in> set (firstOccurrences xs (insert (Name a) seen))"
      from firstOccurrences_names [OF in_rest] have "Name a \<noteq> Name x" by auto
      with Cons.IH [OF in_rest] show ?thesis by simp
    qed
  qed
qed

lemma firstOccurrences_names_complete:
  "x \<in> set xs \<Longrightarrow> Name x \<notin> seen \<Longrightarrow> Name x \<in> Name ` set (firstOccurrences xs seen)"
proof (induction xs arbitrary: seen)
  case Nil
  then show ?case by simp
next
  case (Cons a xs)
  show ?case
  proof (cases "Name a = Name x")
    case True
    with Cons.prems show ?thesis by simp
  next
    case False
    with Cons.prems have x: "x \<in> set xs" by auto
    from False Cons.prems have fresh: "Name x \<notin> insert (Name a) seen" by simp
    from Cons.IH [OF x fresh] Cons.IH [OF x Cons.prems(2)] show ?thesis by simp
  qed
qed

text \<open>
  C8. DeduplicateDatabases is the stable first-occurrence-wins filter keyed by name:
  the names of its output are pairwise distinct, the output is a subsequence of the
  input (the relative order is kept), every kept entry is the first entry of the input
  with its name, no name of the input is lost, and the example of the specification
  gives the stated result.
\<close>

theorem DeduplicateDatabases_first_occurrence:
  "DeduplicateDatabases databases = firstOccurrences databases {}
   \<and> distinct (map Name (DeduplicateDatabases databases))
   \<and> subseq (DeduplicateDatabases databases) databases
   \<and> (\<forall>db \<in> set (DeduplicateDatabases databases).
         find (\<lambda>y. Name y = Name db) databases = Some db)
   \<and> Name ` set (DeduplicateDatabases databases) = Name ` set databases
   \<and> DeduplicateDatabases [dbA, dbB, dbA'] = [dbA, dbB]"
proof -
  have eq: "DeduplicateDatabases databases = firstOccurrences databases {}" for databases
    by (simp add: DeduplicateDatabases_def DeduplicateDatabases_loop_firstOccurrences)
  have "Name ` set (firstOccurrences databases {}) = Name ` set databases"
    using firstOccurrences_names [of _ databases "{}"]
          firstOccurrences_names_complete [of _ databases "{}"] by auto
  moreover have "DeduplicateDatabases [dbA, dbB, dbA'] = [dbA, dbB]"
    by (simp add: eq dbA_def dbB_def dbA'_def)
  ultimately show ?thesis
    using firstOccurrences_distinct firstOccurrences_subseq firstOccurrences_find by (simp add: eq)
qed

theorem DeduplicateDatabases_first_occurrence_witness:
  "find (\<lambda>y. Name y = Name dbA) [dbA, dbB, dbA'] = Some dbA \<and> dbA' \<noteq> dbA"
proof -
  have "dbA \<in> set (DeduplicateDatabases [dbA, dbB, dbA'])"
    using DeduplicateDatabases_first_occurrence [of "[]"] by simp
  with DeduplicateDatabases_first_occurrence [of "[dbA, dbB, dbA']"] show ?thesis
    by (simp add: dbA_def dbA'_def)
qed


section \<open>Properties of the Manifest Loader\<close>

lemma LoadManifest_loop_bad_entry:
  "\<exists>db \<in> set dbs. mName db = [] \<or> Migrations db = [] \<Longrightarrow>
     \<exists>e. LoadManifest_loop sys mp root dbs acc = Inl e"
  by (induction dbs arbitrary: acc) (auto simp: Let_def)

lemma LoadManifest_loop_accepted_prefix:
  "\<forall>p \<in> set pre. entryAccepted sys root p \<Longrightarrow>
     LoadManifest_loop sys mp root (pre @ rest) acc =
       LoadManifest_loop sys mp root rest
         (acc @ map (\<lambda>p. \<lparr>Name = mName p, MigrationsPath = resolvedPath sys root p,
                           SourceFile = mp\<rparr>) pre)"
  by (induction pre arbitrary: acc) (auto simp: Let_def entryAccepted_def resolvedPath_def)

lemma LoadManifest_decoded:
  assumes "ReadFile sys mp = Inr data"
    and "(if suffix ''.json'' mp then JSONUnmarshal sys data else YAMLUnmarshal sys data) = Inr m"
  shows "LoadManifest sys mp root =
           (if mDatabases m = [] then Inl ManifestContainsNoDatabases
            else LoadManifest_loop sys mp root (mDatabases m) [])"
  using assms by (auto simp: LoadManifest_def split: if_splits)

text \<open>
  C9. Once the manifest file has been read and decoded, LoadManifest returns an error
  and no database list when the list of databases is empty and whenever some entry has
  an empty name or an empty migrations path. The error is that of the first entry the
  loop does not pass: the missing-name error when that entry has no name, and the
  missing-migrations error carrying the entry's name when it has a name and no path.
\<close>

theorem LoadManifest_rejects:
  assumes "ReadFile sys mp = Inr data"
    and "(if suffix ''.json'' mp then JSONUnmarshal sys data else YAMLUnmarshal sys data) = Inr m"
  shows "(mDatabases m = [] \<longrightarrow> LoadManifest sys mp root = Inl ManifestContainsNoDatabases)
   \<and> ((\<exists>db \<in> set (mDatabases m). mName db = [] \<or> Migrations db = [])
        \<longrightarrow> (\<exists>e. LoadManifest sys mp root = Inl e))
   \<and> (mDatabases m = pre @ db # post \<and> (\<forall>p \<in> set pre. entryAccepted sys root p)
        \<longrightarrow> (mName db = [] \<longrightarrow> LoadManifest sys mp root = Inl EntryMissingName)
          \<and> (mName db \<noteq> [] \<and> Migrations db = []
               \<longrightarrow> LoadManifest sys mp root = Inl (MissingMigrationsPath (mName db))))"
proof (intro conjI impI)
  assume "mDatabases m = []"
  then show "LoadManifest sys mp root = Inl ManifestContainsNoDatabases"
    by (simp add: LoadManifest_decoded [OF assms])
next
  assume bad: "\<exists>db \<in> set (mDatabases m). mName db = [] \<or> Migrations db = []"
  then have "mDatabases m \<noteq> []" by auto
  with LoadManifest_loop_bad_entry [OF bad]
  show "\<exists>e. LoadManifest sys mp root = Inl e"
    by (simp add: LoadManifest_decoded [OF assms])
next
  assume h: "mDatabases m = pre @ db # post \<and> (\<forall>p \<in> set pre. entryAccepted sys root p)"
    and "mName db = []"
  then show "LoadManifest sys mp root = Inl EntryMissingName"
    by (simp add: LoadManifest_decoded [OF assms] LoadManifest_loop_accepted_prefix)
next
  assume h: "mDatabases m = pre @ db # post \<and> (\<forall>p \<in> set pre. entryAccepted sys root p)"
    and "mName db \<noteq> [] \<and> Migrations db = []"
  then show "LoadManifest sys mp root = Inl (MissingMigrationsPath (mName db))"
    by (simp add: LoadManifest_decoded [OF assms] LoadManifest_loop_accepted_prefix)
qed

theorem LoadManifest_rejects_witness:
  "LoadManifest (exampleSys badManifest) ''m.yaml'' ''/app'' = Inl (MissingMigrationsPath ''b'')
   \<and> LoadManifest (exampleSys \<lparr>Version = ''1'', mDatabases = []\<rparr>) ''m.json'' ''/app''
       = Inl ManifestContainsNoDatabases"
proof -
  let ?sys = "exampleSys badManifest"
  have r: "ReadFile ?sys ''m.yaml'' = Inr []" by (simp add: exampleSys_def)
  have d: "(if suffix ''.json'' ''m.yaml'' then JSONUnmarshal ?sys [] else YAMLUnmarshal ?sys [])
            = Inr badManifest"
    by (simp add: exampleSys_def)
  have shape: "mDatabases badManifest
                 = [\<lparr>mName = ''a'', Migrations = ''/m/a''\<rparr>] @ \<lparr>mName = ''b'', Migrations = []\<rparr>
                     # [\<lparr>mName = [], Migrations = ''/m/c''\<rparr>]
               \<and> (\<forall>p \<in> set [\<lparr>mName = ''a'', Migrations = ''/m/a''\<rparr>]. entryAccepted ?sys ''/app'' p)"
    by (simp add: badManifest_def entryAccepted_def exampleSys_def)
  from LoadManifest_rejects [OF r d, where pre = "[\<lparr>mName = ''a'', Migrations = ''/m/a''\<rparr>]"
         and db = "\<lparr>mName = ''b'', Migrations = []\<rparr>"
         and post = "[\<lparr>mName = [], Migrations = ''/m/c''\<rparr>]" and root = "''/app''"] shape
  have 1: "LoadManifest ?sys ''m.yaml'' ''/app'' = Inl (MissingMigrationsPath ''b'')"
    by simp
  let ?e = "\<lparr>Version = ''1'', mDatabases = []\<rparr>"
  have r2: "ReadFile (exampleSys ?e) ''m.json'' = Inr []" by (simp add: exampleSys_def)
  have d2: "(if suffix ''.json'' ''m.json'' then JSONUnmarshal (exampleSys ?e) []
             else YAMLUnmarshal (exampleSys ?e) []) = Inr ?e"
    by (simp add: exampleSys_def)
  from LoadManifest_rejects [OF r2 d2, where root = "''/app''"]
  have 2: "LoadManifest (exampleSys ?e) ''m.json'' ''/app'' = Inl ManifestContainsNoDatabases"
    by simp
  from 1 2 show ?thesis by simp
qed


section \<open>Properties of the Source Scanner\<close>

lemma findImportAlias_none:
  "\<forall>imp \<in> set imps. Trim (PathValue imp) (CHR 0x22) = path
      \<longrightarrow> ImportName imp = Some ''.'' \<or> ImportName imp = Some ''_'' \<Longrightarrow>
   findImportAlias imps path = []"
  by (induction imps) (auto simp: Let_def)

text \<open>
  C7. When a file parses and none of its import declarations names the module
  \<^verbatim>\<open>encore.dev/storage/sqldb\<close>, or those that do are blank imports or dot imports,
  parseFile returns no database declaration and records no error, whatever calls the
  file contains.
\<close>

theorem parseFile_not_importing:
  assumes "ParseFile sys filePath = Inr node"
    and "\<forall>imp \<in> set (Imports node).
           Trim (PathValue imp) (CHR 0x22) = encoreSQLDBImport
             \<longrightarrow> ImportName imp = Some ''.'' \<or> ImportName imp = Some ''_''"
  shows "parseFile sys errors filePath = (Inr [], errors)"
  using assms(1) findImportAlias_none [OF assms(2)]
  by (simp add: parseFile_def)

theorem parseFile_not_importing_witness:
  "parseFile (scanSys (sourceFile (Some ''_''))) [] ''/app/svc/db.go'' = (Inr [], [])
   \<and> parseFile (scanSys (sourceFile (Some ''.''))) [] ''/app/svc/db.go'' = (Inr [], [])"
proof -
  have p: "ParseFile (scanSys (sourceFile n)) ''/app/svc/db.go'' = Inr (sourceFile n)" for n
    by (simp add: scanSys_def)
  have t1: "Trim (quoted ''fmt'') (CHR 0x22) \<noteq> encoreSQLDBImport"
    by (simp add: Trim_def quoted_def encoreSQLDBImport_def)
  have blank: "\<forall>imp \<in> set (Imports (sourceFile (Some ''_''))).
           Trim (PathValue imp) (CHR 0x22) = encoreSQLDBImport
             \<longrightarrow> ImportName imp = Some ''.'' \<or> ImportName imp = Some ''_''"
    using t1 by (simp add: sourceFile_def)
  have dot: "\<forall>imp \<in> set (Imports (sourceFile (Some ''.''))).
           Trim (PathValue imp) (CHR 0x22) = encoreSQLDBImport
             \<longrightarrow> ImportName imp = Some ''.'' \<or> ImportName imp = Some ''_''"
    using t1 by (simp add: sourceFile_def)
  from parseFile_not_importing [OF p blank] parseFile_not_importing [OF p dot]
  show ?thesis by simp
qed


section \<open>Properties of the connection string\<close>

lemma BuildConnectionString_example_round_trip:
  "BuildConnectionString
     \<lparr>EncoreName = ''orders'', PGDBName = ''d'', Host = ''h'', Port = [],
      Username = ''a@b'', Password = ''p/q'', SSLMode = []\<rparr>
     = Inr ''postgres://a%40b:p%2Fq@h:5432/d?sslmode=disable''
   \<and> parseUserPassword ''postgres://a%40b:p%2Fq@h:5432/d?sslmode=disable''
       = Some (''a@b'', ''p/q'')"
  by code_simp

text \<open>
  Apart from the space, the escaping is the percent-encoding and decodes back to the
  original bytes.
\<close>

lemma unhex_upperhex: "n < 16 \<Longrightarrow> unhex (upperhex ! n) = Some n"
proof -
  assume "n < 16"
  then have "n \<in> set [0..<16]" by simp
  moreover have "\<forall>k \<in> set [0..<16]. unhex (upperhex ! k) = Some k"
    by code_simp
  ultimately show ?thesis by blast
qed

lemma percent_escaped: "\<not> shouldEscape c \<Longrightarrow> c \<noteq> CHR ''%''"
  by (auto simp: shouldEscape_def)

lemma unescape_QueryEscape:
  "CHR '' '' \<notin> set s \<Longrightarrow> unescape (QueryEscape s) = Some s"
proof (induction s)
  case Nil
  then show ?case by simp
next
  case (Cons c s)
  then have IH: "unescape (QueryEscape s) = Some s" and c: "c \<noteq> CHR '' ''" by auto
  show ?case
  proof (cases "shouldEscape c")
    case True
    have d: "(of_char c :: nat) div 16 < 16"
      using nat_of_char_less_256 [of c] by (simp add: less_mult_imp_div_less)
    have m: "(of_char c :: nat) mod 16 < 16" by simp
    have "char_of ((of_char c :: nat) div 16 * 16 + of_char c mod 16) = c"
      by simp
    with True c IH show ?thesis
      by (simp add: unhex_upperhex [OF d] unhex_upperhex [OF m])
  next
    case False
    with IH percent_escaped [OF False] show ?thesis by simp
  qed
qed

text \<open>
  C3. The claim fails on a password that contains a space: BuildConnectionString
  writes the space as \<^verbatim>\<open>+\<close>, which is not its percent-encoding, and reading the URL back
  gives the password \<^verbatim>\<open>p+q\<close> where the mapping had \<^verbatim>\<open>p q\<close>.
\<close>

theorem BuildConnectionString_space_password:
  "BuildConnectionString spacePasswordMapping
     = Inr ''postgres://u:p+q@h:5432/d?sslmode=disable''
   \<and> parseUserPassword ''postgres://u:p+q@h:5432/d?sslmode=disable'' = Some (''u'', ''p+q'')
   \<and> ''p+q'' \<noteq> Password spacePasswordMapping"
proof -
  have "BuildConnectionString spacePasswordMapping
          = Inr ''postgres://u:p+q@h:5432/d?sslmode=disable''"
    by (simp add: BuildConnectionString_def spacePasswordMapping_def shouldEscape_def)
  moreover have "parseUserPassword ''postgres://u:p+q@h:5432/d?sslmode=disable''
                   = Some (''u'', ''p+q'')"
    by code_simp
  moreover have "''p+q'' \<noteq> Password spacePasswordMapping"
    by (simp add: spacePasswordMapping_def)
  ultimately show ?thesis by simp
qed

section \<open>Properties of the Orchestrator\<close>

lemma runMigrations_loop_errs:
  assumes "\<forall>db \<in> set dbs. \<forall>m. GetMapping env cfg (Name db) = Inr m \<longrightarrow>
             (\<exists>conn. BuildConnectionString (applyConnectionOverrides cmd m) = Inr conn)"
  shows "fst (runMigrations_loop env cmd migrator direction cfg dbs errs out w)
           = Inr (errs @ migrationFailures env cmd migrator direction cfg dbs w)"
  using assms
proof (induction dbs arbitrary: errs out w)
  case Nil
  then show ?case by simp
next
  case (Cons db rest)
  then have rest: "\<forall>db \<in> set rest. \<forall>m. GetMapping env cfg (Name db) = Inr m \<longrightarrow>
             (\<exists>conn. BuildConnectionString (applyConnectionOverrides cmd m) = Inr conn)"
    by simp
  note IH = Cons.IH [OF rest]
  show ?case
  proof (cases "GetMapping env cfg (Name db)")
    case (Inl e)
    with IH show ?thesis by simp
  next
    case (Inr m)
    with Cons.prems obtain conn
      where conn: "BuildConnectionString (applyConnectionOverrides cmd m) = Inr conn"
      by auto
    obtain res w' where step:
      "invokeMigrator migrator direction cmd conn (MigrationsPath db) w = (res, w')"
      by (cases "invokeMigrator migrator direction cmd conn (MigrationsPath db) w")
    show ?thesis
    proof (cases res)
      case (Inl err)
      with Inr conn step IH show ?thesis by (simp add: failureOf_def)
    next
      case (Inr result)
      with \<open>GetMapping env cfg (Name db) = Inr m\<close> conn step IH show ?thesis
        by (simp add: failureOf_def)
    qed
  qed
qed


lemma aggregate_None_iff: "aggregate errs = None \<longleftrightarrow> errs = []"
  by (simp add: aggregate_def)

lemma runMigrations_unfiltered:
  assumes "loadConfigAndDiscover inp = Inr (cfg, databases)"
    and "flag_database cmd = []" and "databases \<noteq> []"
  shows "runMigrations env inp cmd migrator direction w =
           (case runMigrations_loop env cmd migrator direction cfg databases [] [] w of
              (Inl err, out, w') \<Rightarrow> (Some err, out, w')
            | (Inr errs, out, w') \<Rightarrow> (aggregate errs, out, w'))"
  using assms
  by (auto simp: runMigrations_def aggregate_def Let_def split: prod.splits sum.splits)

lemma threeInputs_loaded:
  "loadConfigAndDiscover threeInputs = Inr (acConfig, [dbA, dbB, dbC])"
  by (simp add: loadConfigAndDiscover_def threeInputs_def DeduplicateDatabases_def
        dbA_def dbB_def dbC_def)

lemma acConfig_a:
  "GetMapping Map.empty acConfig ''a''
     = Inr \<lparr>EncoreName = ''a'', PGDBName = ''pg'', Host = ''h1'', Port = ''5432'',
             Username = ''u'', Password = ''pw'', SSLMode = ''disable''\<rparr>"
  by (simp add: GetMapping_def acConfig_def resolveMapping_def parseHostPort_def Resolve_def
        plainDatabase_def literal_def)

lemma acConfig_b:
  "GetMapping Map.empty acConfig ''b''
     = Inl (ConfigError ''sql_servers.databases'' (DatabaseNotFound ''b''))"
  by (simp add: GetMapping_def acConfig_def)

lemma acConfig_c:
  "GetMapping Map.empty acConfig ''c''
     = Inr \<lparr>EncoreName = ''c'', PGDBName = ''pg'', Host = ''h2'', Port = ''6432'',
             Username = ''u'', Password = ''pw'', SSLMode = ''disable''\<rparr>"
  by (simp add: GetMapping_def acConfig_def resolveMapping_def parseHostPort_def Resolve_def
        plainDatabase_def literal_def)

lemma noFlags_overrides: "applyConnectionOverrides noFlags m = m"
  by (simp add: applyConnectionOverrides_def noFlags_def)

lemma conn_a:
  "BuildConnectionString \<lparr>EncoreName = ''a'', PGDBName = ''pg'', Host = ''h1'', Port = ''5432'',
             Username = ''u'', Password = ''pw'', SSLMode = ''disable''\<rparr>
     = Inr ''postgres://u:pw@h1:5432/pg?sslmode=disable''"
  by (simp add: BuildConnectionString_def shouldEscape_def)

lemma conn_c:
  "BuildConnectionString \<lparr>EncoreName = ''c'', PGDBName = ''pg'', Host = ''h2'', Port = ''6432'',
             Username = ''u'', Password = ''pw'', SSLMode = ''disable''\<rparr>
     = Inr ''postgres://u:pw@h2:6432/pg?sslmode=disable''"
  by (simp add: BuildConnectionString_def shouldEscape_def)

lemma okMigrator_run:
  "runMigrations_loop Map.empty noFlags okMigrator ''up'' acConfig [dbA, dbB, dbC] [] [] ()
     = (Inr [],
        [Migrating ''a'' ''pg'', VersionChange 1 2,
         WarningSkipping ''b'' (ConfigError ''sql_servers.databases'' (DatabaseNotFound ''b'')),
         Migrating ''c'' ''pg'', VersionChange 1 2],
        ())"
  by (simp add: dbA_def dbB_def dbC_def acConfig_a acConfig_b acConfig_c noFlags_overrides
        conn_a conn_c invokeMigrator_def okMigrator_def)

text \<open>
  C2, as stated, fails: with three discovered databases of which the second has no entry
  in the configuration and an engine that succeeds, the first and the third are
  migrated, the second is skipped with a warning, and the run returns no error.
\<close>

theorem runMigrations_unresolved_counterexample:
  "GetMapping Map.empty acConfig (Name dbB)
     = Inl (ConfigError ''sql_servers.databases'' (DatabaseNotFound ''b''))
   \<and> runMigrations Map.empty threeInputs noFlags okMigrator ''up'' ()
     = (None,
        [Migrating ''a'' ''pg'', VersionChange 1 2,
         WarningSkipping ''b'' (ConfigError ''sql_servers.databases'' (DatabaseNotFound ''b'')),
         Migrating ''c'' ''pg'', VersionChange 1 2],
        ())"
proof -
  have flag: "flag_database noFlags = []" by (simp add: noFlags_def)
  have ne: "[dbA, dbB, dbC] \<noteq> []" by simp
  have b: "GetMapping Map.empty acConfig (Name dbB)
     = Inl (ConfigError ''sql_servers.databases'' (DatabaseNotFound ''b''))"
    by (simp add: dbB_def acConfig_b)
  have "runMigrations Map.empty threeInputs noFlags okMigrator ''up'' ()
     = (None,
        [Migrating ''a'' ''pg'', VersionChange 1 2,
         WarningSkipping ''b'' (ConfigError ''sql_servers.databases'' (DatabaseNotFound ''b'')),
         Migrating ''c'' ''pg'', VersionChange 1 2],
        ())"
    unfolding runMigrations_unfiltered [OF threeInputs_loaded flag ne] okMigrator_run
    by (simp add: aggregate_def)
  with b show ?thesis by simp
qed

lemma runMigrations_loop_three:
  assumes "GetMapping env cfg (Name d1) = Inr m1"
    and "BuildConnectionString (applyConnectionOverrides cmd m1) = Inr conn1"
    and "GetMapping env cfg (Name d2) = Inl e2"
    and "GetMapping env cfg (Name d3) = Inr m3"
    and "BuildConnectionString (applyConnectionOverrides cmd m3) = Inr conn3"
    and "invokeMigrator migrator direction cmd conn1 (MigrationsPath d1) w = (r1, w1)"
    and "invokeMigrator migrator direction cmd conn3 (MigrationsPath d3) w1 = (r3, w3)"
  shows "runMigrations_loop env cmd migrator direction cfg [d1, d2, d3] [] [] w
           = (Inr (failureOf (Name d1) r1 @ failureOf (Name d3) r3),
              [Migrating (Name d1) (PGDBName (applyConnectionOverrides cmd m1)), reportLine r1,
               WarningSkipping (Name d2) e2,
               Migrating (Name d3) (PGDBName (applyConnectionOverrides cmd m3)), reportLine r3],
              w3)"
  using assms
  by (cases r1; cases r3) (simp_all add: failureOf_def reportLine_def)

text \<open>
  C2, amended. Take a run whose configuration and discovery load and that has no
  database filter. If the list of discovered databases is not empty and every resolved
  mapping yields a connection string, the returned error is the aggregate of the error
  lines of the databases whose migration step failed, and the run returns no error
  exactly when no step failed; a database without a resolvable configuration is skipped
  and adds nothing to the error. In particular, for three databases of which the second
  does not resolve, the engine runs for the first and then the third, the warning names
  the second, and the run fails exactly when the engine failed for the first or the
  third. If the list of discovered databases is empty, the run fails at once with the
  error that no databases were found.
\<close>

theorem runMigrations_partial_failure:
  assumes "loadConfigAndDiscover inp = Inr (cfg, databases)" and "flag_database cmd = []"
  shows
  "(databases \<noteq> []
      \<and> (\<forall>db \<in> set databases. \<forall>m. GetMapping env cfg (Name db) = Inr m \<longrightarrow>
             (\<exists>conn. BuildConnectionString (applyConnectionOverrides cmd m) = Inr conn))
      \<longrightarrow> fst (runMigrations env inp cmd migrator direction w)
            = aggregate (migrationFailures env cmd migrator direction cfg databases w)
        \<and> (fst (runMigrations env inp cmd migrator direction w) = None
             \<longleftrightarrow> migrationFailures env cmd migrator direction cfg databases w = []))
   \<and> (databases = [d1, d2, d3]
      \<and> GetMapping env cfg (Name d1) = Inr m1
      \<and> BuildConnectionString (applyConnectionOverrides cmd m1) = Inr conn1
      \<and> GetMapping env cfg (Name d2) = Inl e2
      \<and> GetMapping env cfg (Name d3) = Inr m3
      \<and> BuildConnectionString (applyConnectionOverrides cmd m3) = Inr conn3
      \<and> invokeMigrator migrator direction cmd conn1 (MigrationsPath d1) w = (r1, w1)
      \<and> invokeMigrator migrator direction cmd conn3 (MigrationsPath d3) w1 = (r3, w3)
      \<longrightarrow> runMigrations env inp cmd migrator direction w
            = (aggregate (failureOf (Name d1) r1 @ failureOf (Name d3) r3),
               [Migrating (Name d1) (PGDBName (applyConnectionOverrides cmd m1)), reportLine r1,
                WarningSkipping (Name d2) e2,
                Migrating (Name d3) (PGDBName (applyConnectionOverrides cmd m3)), reportLine r3],
               w3)
        \<and> (fst (runMigrations env inp cmd migrator direction w) = None
             \<longleftrightarrow> (\<exists>res1 res3. r1 = Inr res1 \<and> r3 = Inr res3)))
   \<and> (databases = []
      \<longrightarrow> runMigrations env inp cmd migrator direction w = (Some NoDatabasesFound, [], w))"
proof (intro conjI impI)
  assume h: "databases \<noteq> []
      \<and> (\<forall>db \<in> set databases. \<forall>m. GetMapping env cfg (Name db) = Inr m \<longrightarrow>
             (\<exists>conn. BuildConnectionString (applyConnectionOverrides cmd m) = Inr conn))"
  then have ne: "databases \<noteq> []" and ok: "\<forall>db \<in> set databases. \<forall>m. GetMapping env cfg (Name db) = Inr m \<longrightarrow>
             (\<exists>conn. BuildConnectionString (applyConnectionOverrides cmd m) = Inr conn)"
    by simp_all
  from runMigrations_loop_errs [OF ok, of migrator direction "[]" "[]" w]
  show agg: "fst (runMigrations env inp cmd migrator direction w)
            = aggregate (migrationFailures env cmd migrator direction cfg databases w)"
    unfolding runMigrations_unfiltered [OF assms ne]
    by (auto split: prod.splits sum.splits)
  show "fst (runMigrations env inp cmd migrator direction w) = None
             \<longleftrightarrow> migrationFailures env cmd migrator direction cfg databases w = []"
    unfolding agg by (rule aggregate_None_iff)
next
  assume h: "databases = [d1, d2, d3]
      \<and> GetMapping env cfg (Name d1) = Inr m1
      \<and> BuildConnectionString (applyConnectionOverrides cmd m1) = Inr conn1
      \<and> GetMapping env cfg (Name d2) = Inl e2
      \<and> GetMapping env cfg (Name d3) = Inr m3
      \<and> BuildConnectionString (applyConnectionOverrides cmd m3) = Inr conn3
      \<and> invokeMigrator migrator direction cmd conn1 (MigrationsPath d1) w = (r1, w1)
      \<and> invokeMigrator migrator direction cmd conn3 (MigrationsPath d3) w1 = (r3, w3)"
  then have ne: "databases \<noteq> []" by simp
  from h have loop: "runMigrations_loop env cmd migrator direction cfg databases [] [] w
           = (Inr (failureOf (Name d1) r1 @ failureOf (Name d3) r3),
              [Migrating (Name d1) (PGDBName (applyConnectionOverrides cmd m1)), reportLine r1,
               WarningSkipping (Name d2) e2,
               Migrating (Name d3) (PGDBName (applyConnectionOverrides cmd m3)), reportLine r3],
              w3)"
    using runMigrations_loop_three [of env cfg d1 m1 cmd conn1 d2 e2 d3 m3 conn3 migrator direction w r1 w1 r3 w3]
    by simp
  show run: "runMigrations env inp cmd migrator direction w
            = (aggregate (failureOf (Name d1) r1 @ failureOf (Name d3) r3),
               [Migrating (Name d1) (PGDBName (applyConnectionOverrides cmd m1)), reportLine r1,
                WarningSkipping (Name d2) e2,
                Migrating (Name d3) (PGDBName (applyConnectionOverrides cmd m3)), reportLine r3],
               w3)"
    unfolding runMigrations_unfiltered [OF assms ne] loop by simp
  show "fst (runMigrations env inp cmd migrator direction w) = None
             \<longleftrightarrow> (\<exists>res1 res3. r1 = Inr res1 \<and> r3 = Inr res3)"
    unfolding run by (cases r1; cases r3) (simp_all add: aggregate_def failureOf_def)
next
  assume "databases = []"
  with assms show "runMigrations env inp cmd migrator direction w = (Some NoDatabasesFound, [], w)"
    by (simp add: runMigrations_def)
qed


theorem runMigrations_partial_failure_witness:
  "runMigrations Map.empty threeInputs noFlags failingMigrator ''up'' ()
     = (Some (MigrationErrors (''migration errors:'' @ newline @ ''  c: boom'')),
        [Migrating ''a'' ''pg'', VersionChange 1 2,
         WarningSkipping ''b'' (ConfigError ''sql_servers.databases'' (DatabaseNotFound ''b'')),
         Migrating ''c'' ''pg'', ErrorLine ''boom''],
        ())
   \<and> migrationFailures Map.empty noFlags failingMigrator ''up'' acConfig [dbA, dbB, dbC] ()
       = [''c: boom'']
   \<and> runMigrations Map.empty emptyInputs noFlags failingMigrator ''up'' ()
       = (Some NoDatabasesFound, [], ())"
proof -
  let ?ma = "\<lparr>EncoreName = ''a'', PGDBName = ''pg'', Host = ''h1'', Port = ''5432'',
             Username = ''u'', Password = ''pw'', SSLMode = ''disable''\<rparr>"
  let ?mc = "\<lparr>EncoreName = ''c'', PGDBName = ''pg'', Host = ''h2'', Port = ''6432'',
             Username = ''u'', Password = ''pw'', SSLMode = ''disable''\<rparr>"
  let ?ra = "Inr \<lparr>VersionBefore = 1, VersionAfter = 2\<rparr> :: string + MigrationResult"
  let ?rc = "Inl ''boom'' :: string + MigrationResult"
  have flag: "flag_database noFlags = []" by (simp add: noFlags_def)
  have h: "[dbA, dbB, dbC] = [dbA, dbB, dbC]
      \<and> GetMapping Map.empty acConfig (Name dbA) = Inr ?ma
      \<and> BuildConnectionString (applyConnectionOverrides noFlags ?ma)
          = Inr ''postgres://u:pw@h1:5432/pg?sslmode=disable''
      \<and> GetMapping Map.empty acConfig (Name dbB)
          = Inl (ConfigError ''sql_servers.databases'' (DatabaseNotFound ''b''))
      \<and> GetMapping Map.empty acConfig (Name dbC) = Inr ?mc
      \<and> BuildConnectionString (applyConnectionOverrides noFlags ?mc)
          = Inr ''postgres://u:pw@h2:6432/pg?sslmode=disable''
      \<and> invokeMigrator failingMigrator ''up'' noFlags
            ''postgres://u:pw@h1:5432/pg?sslmode=disable'' (MigrationsPath dbA) () = (?ra, ())
      \<and> invokeMigrator failingMigrator ''up'' noFlags
            ''postgres://u:pw@h2:6432/pg?sslmode=disable'' (MigrationsPath dbC) () = (?rc, ())"
    by (simp add: dbA_def dbB_def dbC_def acConfig_a acConfig_b acConfig_c noFlags_overrides
          conn_a conn_c invokeMigrator_def failingMigrator_def)
  from runMigrations_partial_failure [OF threeInputs_loaded flag,
         where ?d1.0 = dbA and ?d2.0 = dbB and ?d3.0 = dbC and env = Map.empty
           and ?m1.0 = ?ma and ?m3.0 = ?mc
           and ?conn1.0 = "''postgres://u:pw@h1:5432/pg?sslmode=disable''"
           and ?conn3.0 = "''postgres://u:pw@h2:6432/pg?sslmode=disable''"
           and ?e2.0 = "ConfigError ''sql_servers.databases'' (DatabaseNotFound ''b'')"
           and migrator = failingMigrator and direction = "''up''" and w = "()"
           and ?r1.0 = ?ra and ?w1.0 = "()" and ?r3.0 = ?rc and ?w3.0 = "()"] h
  have "runMigrations Map.empty threeInputs noFlags failingMigrator ''up'' ()
            = (aggregate (failureOf (Name dbA) ?ra @ failureOf (Name dbC) ?rc),
               [Migrating (Name dbA) (PGDBName (applyConnectionOverrides noFlags ?ma)), reportLine ?ra,
                WarningSkipping (Name dbB) (ConfigError ''sql_servers.databases'' (DatabaseNotFound ''b'')),
                Migrating (Name dbC) (PGDBName (applyConnectionOverrides noFlags ?mc)), reportLine ?rc],
               ())"
    by blast
  then have run: "runMigrations Map.empty threeInputs noFlags failingMigrator ''up'' ()
     = (Some (MigrationErrors (''migration errors:'' @ newline @ ''  c: boom'')),
        [Migrating ''a'' ''pg'', VersionChange 1 2,
         WarningSkipping ''b'' (ConfigError ''sql_servers.databases'' (DatabaseNotFound ''b'')),
         Migrating ''c'' ''pg'', ErrorLine ''boom''],
        ())"
    by (simp add: aggregate_def failureOf_def reportLine_def noFlags_overrides
          dbA_def dbB_def dbC_def)
  have buildable: "[dbA, dbB, dbC] \<noteq> []
      \<and> (\<forall>db \<in> set [dbA, dbB, dbC]. \<forall>m. GetMapping Map.empty acConfig (Name db) = Inr m \<longrightarrow>
             (\<exists>conn. BuildConnectionString (applyConnectionOverrides noFlags m) = Inr conn))"
    by (simp add: dbA_def dbB_def dbC_def acConfig_a acConfig_b acConfig_c noFlags_overrides
          conn_a conn_c)
  from runMigrations_partial_failure [OF threeInputs_loaded flag,
         where env = Map.empty and migrator = failingMigrator and direction = "''up''"
           and w = "()"] buildable
  have "fst (runMigrations Map.empty threeInputs noFlags failingMigrator ''up'' ())
          = aggregate (migrationFailures Map.empty noFlags failingMigrator ''up'' acConfig
                         [dbA, dbB, dbC] ())"
    by blast
  moreover have "migrationFailures Map.empty noFlags failingMigrator ''up'' acConfig
                   [dbA, dbB, dbC] () = [''c: boom'']"
    by (simp add: dbA_def dbB_def dbC_def acConfig_a acConfig_b acConfig_c noFlags_overrides
          conn_a conn_c invokeMigrator_def failingMigrator_def failureOf_def)
  moreover have "runMigrations Map.empty emptyInputs noFlags failingMigrator ''up'' ()
       = (Some NoDatabasesFound, [], ())"
  proof -
    have loaded: "loadConfigAndDiscover emptyInputs = Inr (acConfig, [])"
      by (simp add: loadConfigAndDiscover_def emptyInputs_def DeduplicateDatabases_def)
    from runMigrations_partial_failure [OF loaded flag,
           where env = Map.empty and migrator = failingMigrator and direction = "''up''"
             and w = "()"]
    show ?thesis by blast
  qed
  ultimately show ?thesis using run by simp
qed


end
